theory Spec2Isabelle
  imports Complex_Main "HOL-Library.Word"
begin

unbundle bit_operations_syntax

section \<open>Gas sensor frame decoder: data model\<close>

text \<open>
  The repository holds two implementations of \<^verbatim>\<open>gas_sensor.c\<close> against one header.
  The first (lines 1-397 of the source file) is the parsing-only library; its functions
  carry the suffix \<open>_lib\<close> here. The second (lines 399-964) owns the serial port and the
  receive buffer; its functions carry the suffix \<open>_ser\<close>. Functions whose text is the
  same in both (\<open>calculate_checksum\<close>, \<open>parse_uint16_be\<close>, \<open>parse_service_data\<close>, the
  status block of \<open>gas_sensor_parse_frame\<close>) are embedded once.

  Conventions of the embedding:
  \<^item> \<^verbatim>\<open>uint8_t\<close> and \<^verbatim>\<open>uint16_t\<close> are 8 and 16 bit words; the C integer promotions
    to a 32 bit \<^verbatim>\<open>int\<close> are written out where the code computes on promoted values;
  \<^item> a pointer to a struct is an \<open>option\<close>: \<open>None\<close> is \<^verbatim>\<open>NULL\<close>, \<open>Some v\<close> points to a
    struct whose present content is \<open>v\<close>; a function that writes through its pointer
    arguments returns their new contents;
  \<^item> a \<^verbatim>\<open>const uint8_t *\<close> is the list of the bytes that start at the pointer, so
    \<^verbatim>\<open>&frame_data[13]\<close> is \<open>drop 13 frame_data\<close>; the code reads indices 0 to 20 of a
    frame with no length check, so every statement about a frame assumes 21 bytes;
  \<^item> a \<^verbatim>\<open>float\<close> is the rational number it stands for: \<^verbatim>\<open>-1.0f\<close> is \<open>-1\<close> and
    \<^verbatim>\<open>(float)raw / 100.0f\<close> is \<open>raw / 100\<close>; the rounding of the division is not
    modelled (the code stores the binary32 value nearest to the quotient, so \<open>1 / 10\<close>
    here stands for \<^verbatim>\<open>0.1f\<close>), and no statement below depends on it: the values
    compared are \<open>-1\<close>, \<open>0\<close> and \<open>16\<close>, all exact, and 655.35 against \<open>-1\<close>;
  \<^item> the C enums \<^verbatim>\<open>gas_sensor_mode_t\<close> and \<^verbatim>\<open>gas_agent_id_t\<close> are integers: the code
    casts arbitrary bytes into them.
\<close>

type_synonym u8 = "8 word"
type_synonym u16 = "16 word"
type_synonym cfloat = rat

subsection \<open>Constants of gas\_sensor.h\<close>

definition GAS_SENSOR_OK :: int where "GAS_SENSOR_OK = 0"
definition GAS_SENSOR_ERR_INVALID_FRAME :: int where "GAS_SENSOR_ERR_INVALID_FRAME = - 1"
definition GAS_SENSOR_ERR_CHECKSUM :: int where "GAS_SENSOR_ERR_CHECKSUM = - 2"
definition GAS_SENSOR_ERR_SERIAL_READ :: int where "GAS_SENSOR_ERR_SERIAL_READ = - 4"
definition GAS_SENSOR_ERR_CALLBACK :: int where "GAS_SENSOR_ERR_CALLBACK = - 6"
definition GAS_SENSOR_ERR_NULL_PARAM :: int where "GAS_SENSOR_ERR_NULL_PARAM = - 7"

definition GAS_SENSOR_FRAME_SIZE :: int where "GAS_SENSOR_FRAME_SIZE = 21"
definition GAS_SENSOR_FLAG1 :: u8 where "GAS_SENSOR_FLAG1 = 0xAA"
definition GAS_SENSOR_FLAG2 :: u8 where "GAS_SENSOR_FLAG2 = 0x55"
definition GAS_SENSOR_FRAME_ID_MAX :: u8 where "GAS_SENSOR_FRAME_ID_MAX = 10"
definition GAS_SENSOR_NO_DATA :: u8 where "GAS_SENSOR_NO_DATA = 0xFF"
definition GAS_SENSOR_CONC_INVALID :: cfloat where "GAS_SENSOR_CONC_INVALID = - 1"

subsection \<open>Checksum\<close>

text \<open>
  \<^verbatim>\<open>calculate_checksum\<close>: a \<^verbatim>\<open>uint16_t\<close> accumulator over indices 2 to 19, then
  \<^verbatim>\<open>(~sum + 1) & 0xFF\<close>. The operand of \<^verbatim>\<open>~\<close> is promoted to \<^verbatim>\<open>int\<close>, so the
  complement and the addition are on 32 bits; the result is narrowed to \<^verbatim>\<open>uint8_t\<close>.
\<close>

definition calculate_checksum :: "u8 list \<Rightarrow> u8" where
  "calculate_checksum frame_data =
     (let sum = fold (\<lambda>i (sum :: u16). sum + ucast (frame_data ! i)) [2..<20] 0
      in ucast ((NOT (ucast sum :: 32 word) + 1) AND 0xFF))"

text \<open>
  The checksum in the words of the specification: the sum of bytes 2 to 19 in a 16 bit
  accumulator, two's-complemented and truncated to 8 bits.
\<close>

definition checksum_spec :: "u8 list \<Rightarrow> u8" where
  "checksum_spec b = ucast (- (\<Sum>i\<leftarrow>[2..<20]. (ucast (b ! i) :: u16)))"

text \<open>\<^verbatim>\<open>gas_sensor_verify_checksum\<close> of the parsing library (lines 328-346).\<close>

definition gas_sensor_verify_checksum_lib :: "u8 list option \<Rightarrow> bool" where
  "gas_sensor_verify_checksum_lib frame_data =
     (case frame_data of
        None \<Rightarrow> False
      | Some fd \<Rightarrow>
          if fd ! 0 \<noteq> GAS_SENSOR_FLAG1 \<or> fd ! 1 \<noteq> GAS_SENSOR_FLAG2 then False
          else
            let calculated = calculate_checksum fd;
                frame_checksum = fd ! 20
            in calculated = frame_checksum)"

text \<open>\<^verbatim>\<open>gas_sensor_verify_checksum\<close> of the serial implementation (lines 686-696).\<close>

definition gas_sensor_verify_checksum_ser :: "u8 list option \<Rightarrow> bool" where
  "gas_sensor_verify_checksum_ser frame_data =
     (case frame_data of
        None \<Rightarrow> False
      | Some fd \<Rightarrow>
          let expected = fd ! 20;
              calculated = calculate_checksum fd
          in expected = calculated)"

subsection \<open>Structures of gas\_sensor.h\<close>

text \<open>
  Field names are global in a record, so the fields \<^verbatim>\<open>co2\<close>, \<^verbatim>\<open>n2o\<close>, \<^verbatim>\<open>aa1\<close>,
  \<^verbatim>\<open>aa2\<close>, \<^verbatim>\<open>o2\<close> carry the name of their structure, and \<^verbatim>\<open>status\<close> of the service
  data is \<open>service_status\<close>.
\<close>

record gas_sensor_waveform_t =
  wave_co2 :: cfloat
  wave_n2o :: cfloat
  wave_aa1 :: cfloat
  wave_aa2 :: cfloat
  wave_o2 :: cfloat

record gas_sensor_status_t =
  breath_detected :: bool
  apnea :: bool
  o2_low :: bool
  o2_replace :: bool
  check_adapter :: bool
  accuracy_out_of_range :: bool
  sensor_error :: bool
  o2_calibration_required :: bool

record gas_sensor_insp_vals_t =
  insp_co2 :: cfloat
  insp_n2o :: cfloat
  insp_aa1 :: cfloat
  insp_aa2 :: cfloat
  insp_o2 :: cfloat

record gas_sensor_exp_vals_t =
  exp_co2 :: cfloat
  exp_n2o :: cfloat
  exp_aa1 :: cfloat
  exp_aa2 :: cfloat
  exp_o2 :: cfloat

record gas_sensor_mom_vals_t =
  mom_co2 :: cfloat
  mom_n2o :: cfloat
  mom_aa1 :: cfloat
  mom_aa2 :: cfloat
  mom_o2 :: cfloat

record gas_sensor_gen_vals_t =
  resp_rate :: u8
  time_since_breath :: u8
  primary_agent :: int
  secondary_agent :: int
  atm_pressure :: cfloat

record gas_sensor_error_reg_t =
  sw_error :: bool
  hw_error :: bool
  motor_fail :: bool
  uncalibrated :: bool

record gas_sensor_adapter_reg_t =
  replace_adapter :: bool
  no_adapter :: bool
  o2_clogged :: bool

record gas_sensor_data_valid_reg_t =
  co2_out_of_range :: bool
  n2o_out_of_range :: bool
  agent_out_of_range :: bool
  o2_out_of_range :: bool
  temp_out_of_range :: bool
  pressure_out_of_range :: bool
  zero_calibration_required :: bool

record gas_sensor_sensor_regs_t =
  mode :: int
  error :: gas_sensor_error_reg_t
  adapter :: gas_sensor_adapter_reg_t
  data_valid :: gas_sensor_data_valid_reg_t

record gas_sensor_config_data_t =
  o2_fitted :: bool
  co2_fitted :: bool
  n2o_fitted :: bool
  halothane_fitted :: bool
  enflurane_fitted :: bool
  isoflurane_fitted :: bool
  sevoflurane_fitted :: bool
  desflurane_fitted :: bool
  hw_revision :: u16
  sw_revision :: u16
  id_config :: bool
  comm_protocol_rev :: u8

record gas_sensor_service_status_t =
  zero_disabled :: bool
  zero_in_progress :: bool
  span_calibration_error :: bool
  span_calibration_in_progress :: bool

record gas_sensor_service_data_t =
  serial_number :: u16
  service_status :: gas_sensor_service_status_t

record gas_sensor_slow_data_t =
  last_frame_id :: u8
  insp_vals :: gas_sensor_insp_vals_t
  exp_vals :: gas_sensor_exp_vals_t
  mom_vals :: gas_sensor_mom_vals_t
  gen_vals :: gas_sensor_gen_vals_t
  sensor_regs :: gas_sensor_sensor_regs_t
  config_data :: gas_sensor_config_data_t
  service_data :: gas_sensor_service_data_t

text \<open>
  \<^verbatim>\<open>memset(slow_data, 0, sizeof(gas_sensor_slow_data_t))\<close>: every integer and enum is 0,
  every \<^verbatim>\<open>bool\<close> is false, every \<^verbatim>\<open>float\<close> is 0.0.
\<close>

definition memset_zero_slow_data :: gas_sensor_slow_data_t where
  "memset_zero_slow_data =
     \<lparr> last_frame_id = 0,
       insp_vals = \<lparr> insp_co2 = 0, insp_n2o = 0, insp_aa1 = 0, insp_aa2 = 0, insp_o2 = 0 \<rparr>,
       exp_vals = \<lparr> exp_co2 = 0, exp_n2o = 0, exp_aa1 = 0, exp_aa2 = 0, exp_o2 = 0 \<rparr>,
       mom_vals = \<lparr> mom_co2 = 0, mom_n2o = 0, mom_aa1 = 0, mom_aa2 = 0, mom_o2 = 0 \<rparr>,
       gen_vals = \<lparr> resp_rate = 0, time_since_breath = 0, primary_agent = 0,
                    secondary_agent = 0, atm_pressure = 0 \<rparr>,
       sensor_regs =
         \<lparr> mode = 0,
           error = \<lparr> sw_error = False, hw_error = False, motor_fail = False,
                     uncalibrated = False \<rparr>,
           adapter = \<lparr> replace_adapter = False, no_adapter = False, o2_clogged = False \<rparr>,
           data_valid =
             \<lparr> co2_out_of_range = False, n2o_out_of_range = False,
               agent_out_of_range = False, o2_out_of_range = False,
               temp_out_of_range = False, pressure_out_of_range = False,
               zero_calibration_required = False \<rparr> \<rparr>,
       config_data =
         \<lparr> o2_fitted = False, co2_fitted = False, n2o_fitted = False,
           halothane_fitted = False, enflurane_fitted = False, isoflurane_fitted = False,
           sevoflurane_fitted = False, desflurane_fitted = False, hw_revision = 0,
           sw_revision = 0, id_config = False, comm_protocol_rev = 0 \<rparr>,
       service_data =
         \<lparr> serial_number = 0,
           service_status =
             \<lparr> zero_disabled = False, zero_in_progress = False,
               span_calibration_error = False, span_calibration_in_progress = False \<rparr> \<rparr> \<rparr>"

subsection \<open>Field codecs\<close>

text \<open>\<^verbatim>\<open>parse_concentration\<close> of the parsing library (lines 43-50): tenths of a percent.\<close>

definition parse_concentration_lib :: "u8 \<Rightarrow> cfloat" where
  "parse_concentration_lib raw_value =
     (if raw_value = GAS_SENSOR_NO_DATA then GAS_SENSOR_CONC_INVALID
      else of_nat (unat raw_value) / 10)"

text \<open>\<^verbatim>\<open>parse_concentration\<close> of the serial implementation (lines 451-457): the raw value.\<close>

definition parse_concentration_ser :: "u8 \<Rightarrow> cfloat" where
  "parse_concentration_ser raw_value =
     (if raw_value = GAS_SENSOR_NO_DATA then GAS_SENSOR_CONC_INVALID
      else of_nat (unat raw_value))"

text \<open>\<^verbatim>\<open>parse_concentration_2byte\<close> (lines 57-64); the serial implementation has none.\<close>

definition parse_concentration_2byte :: "u16 \<Rightarrow> cfloat" where
  "parse_concentration_2byte raw_value =
     (if raw_value = 0xFFFF then GAS_SENSOR_CONC_INVALID
      else of_nat (unat raw_value) / 100)"

text \<open>\<^verbatim>\<open>parse_uint16_be\<close> (lines 69-72 and 460-463).\<close>

definition parse_uint16_be :: "u8 list \<Rightarrow> u16" where
  "parse_uint16_be data = push_bit 8 (ucast (data ! 0)) OR ucast (data ! 1)"

subsection \<open>Slow data parsers of the parsing library (lines 82-233)\<close>

text \<open>
  Each parser writes through a pointer to one slot of the aggregate: it takes the slot's
  present content and returns the new one.
\<close>

definition parse_insp_vals_lib ::
  "u8 list \<Rightarrow> gas_sensor_insp_vals_t \<Rightarrow> gas_sensor_insp_vals_t" where
  "parse_insp_vals_lib slow_data_bytes insp =
     insp\<lparr> insp_co2 := parse_concentration_lib (slow_data_bytes ! 0),
           insp_n2o := parse_concentration_lib (slow_data_bytes ! 1),
           insp_aa1 := parse_concentration_lib (slow_data_bytes ! 2),
           insp_aa2 := parse_concentration_lib (slow_data_bytes ! 3),
           insp_o2 := parse_concentration_lib (slow_data_bytes ! 4) \<rparr>"

definition parse_exp_vals_lib ::
  "u8 list \<Rightarrow> gas_sensor_exp_vals_t \<Rightarrow> gas_sensor_exp_vals_t" where
  "parse_exp_vals_lib slow_data_bytes exp_out =
     exp_out\<lparr> exp_co2 := parse_concentration_lib (slow_data_bytes ! 0),
          exp_n2o := parse_concentration_lib (slow_data_bytes ! 1),
          exp_aa1 := parse_concentration_lib (slow_data_bytes ! 2),
          exp_aa2 := parse_concentration_lib (slow_data_bytes ! 3),
          exp_o2 := parse_concentration_lib (slow_data_bytes ! 4) \<rparr>"

definition parse_mom_vals_lib ::
  "u8 list \<Rightarrow> gas_sensor_mom_vals_t \<Rightarrow> gas_sensor_mom_vals_t" where
  "parse_mom_vals_lib slow_data_bytes mom =
     mom\<lparr> mom_co2 := parse_concentration_lib (slow_data_bytes ! 0),
          mom_n2o := parse_concentration_lib (slow_data_bytes ! 1),
          mom_aa1 := parse_concentration_lib (slow_data_bytes ! 2),
          mom_aa2 := parse_concentration_lib (slow_data_bytes ! 3),
          mom_o2 := parse_concentration_lib (slow_data_bytes ! 4) \<rparr>"

definition parse_gen_vals_lib ::
  "u8 list \<Rightarrow> gas_sensor_gen_vals_t \<Rightarrow> gas_sensor_gen_vals_t" where
  "parse_gen_vals_lib slow_data_bytes gen =
     (let pressure_raw = parse_uint16_be (drop 4 slow_data_bytes)
      in gen\<lparr> resp_rate := slow_data_bytes ! 0,
              time_since_breath := slow_data_bytes ! 1,
              primary_agent := uint (slow_data_bytes ! 2),
              secondary_agent := uint (slow_data_bytes ! 3),
              atm_pressure :=
                (if pressure_raw = 0xFFFF then GAS_SENSOR_CONC_INVALID
                 else of_nat (unat pressure_raw) / 100) \<rparr>)"

definition parse_sensor_regs_lib ::
  "u8 list \<Rightarrow> gas_sensor_sensor_regs_t \<Rightarrow> gas_sensor_sensor_regs_t" where
  "parse_sensor_regs_lib slow_data_bytes regs =
     (let error_byte = slow_data_bytes ! 1;
          adapter_byte = slow_data_bytes ! 2;
          valid_byte = slow_data_bytes ! 3
      in regs\<lparr> mode := uint (slow_data_bytes ! 0),
               error := (error regs)
                 \<lparr> sw_error := error_byte AND 0x01 \<noteq> 0,
                   hw_error := error_byte AND 0x02 \<noteq> 0,
                   motor_fail := error_byte AND 0x04 \<noteq> 0,
                   uncalibrated := error_byte AND 0x08 \<noteq> 0 \<rparr>,
               adapter := (adapter regs)
                 \<lparr> replace_adapter := adapter_byte AND 0x01 \<noteq> 0,
                   no_adapter := adapter_byte AND 0x02 \<noteq> 0,
                   o2_clogged := adapter_byte AND 0x04 \<noteq> 0 \<rparr>,
               data_valid := (data_valid regs)
                 \<lparr> co2_out_of_range := valid_byte AND 0x01 \<noteq> 0,
                   n2o_out_of_range := valid_byte AND 0x02 \<noteq> 0,
                   agent_out_of_range := valid_byte AND 0x04 \<noteq> 0,
                   o2_out_of_range := valid_byte AND 0x08 \<noteq> 0,
                   temp_out_of_range := valid_byte AND 0x10 \<noteq> 0,
                   pressure_out_of_range := valid_byte AND 0x20 \<noteq> 0,
                   zero_calibration_required := valid_byte AND 0x40 \<noteq> 0 \<rparr> \<rparr>)"

definition parse_config_data_lib ::
  "u8 list \<Rightarrow> gas_sensor_config_data_t \<Rightarrow> gas_sensor_config_data_t" where
  "parse_config_data_lib slow_data_bytes config =
     (let fitted_byte = slow_data_bytes ! 0
      in config\<lparr> o2_fitted := fitted_byte AND 0x01 \<noteq> 0,
                 co2_fitted := fitted_byte AND 0x02 \<noteq> 0,
                 n2o_fitted := fitted_byte AND 0x04 \<noteq> 0,
                 halothane_fitted := fitted_byte AND 0x08 \<noteq> 0,
                 enflurane_fitted := fitted_byte AND 0x10 \<noteq> 0,
                 isoflurane_fitted := fitted_byte AND 0x20 \<noteq> 0,
                 sevoflurane_fitted := fitted_byte AND 0x40 \<noteq> 0,
                 desflurane_fitted := fitted_byte AND 0x80 \<noteq> 0,
                 hw_revision := parse_uint16_be (drop 2 slow_data_bytes),
                 sw_revision := parse_uint16_be (drop 4 slow_data_bytes),
                 id_config := False,
                 comm_protocol_rev := 0 \<rparr>)"

text \<open>\<^verbatim>\<open>parse_service_data\<close> (lines 221-233 and 567-578).\<close>

definition parse_service_data ::
  "u8 list \<Rightarrow> gas_sensor_service_data_t \<Rightarrow> gas_sensor_service_data_t" where
  "parse_service_data slow_data_bytes service =
     (let status_byte = slow_data_bytes ! 2
      in service\<lparr> serial_number := parse_uint16_be slow_data_bytes,
                  service_status := (service_status service)
                    \<lparr> zero_disabled := status_byte AND 0x01 \<noteq> 0,
                      zero_in_progress := status_byte AND 0x02 \<noteq> 0,
                      span_calibration_error := status_byte AND 0x04 \<noteq> 0,
                      span_calibration_in_progress := status_byte AND 0x08 \<noteq> 0 \<rparr> \<rparr>)"

subsection \<open>Slow data parsers of the serial implementation (lines 465-578)\<close>

definition parse_insp_vals_ser ::
  "u8 list \<Rightarrow> gas_sensor_insp_vals_t \<Rightarrow> gas_sensor_insp_vals_t" where
  "parse_insp_vals_ser slow insp =
     insp\<lparr> insp_co2 := parse_concentration_ser (slow ! 0),
           insp_n2o := parse_concentration_ser (slow ! 1),
           insp_aa1 := parse_concentration_ser (slow ! 2),
           insp_aa2 := parse_concentration_ser (slow ! 3),
           insp_o2 := parse_concentration_ser (slow ! 4) \<rparr>"

definition parse_exp_vals_ser ::
  "u8 list \<Rightarrow> gas_sensor_exp_vals_t \<Rightarrow> gas_sensor_exp_vals_t" where
  "parse_exp_vals_ser slow exp_out =
     exp_out\<lparr> exp_co2 := parse_concentration_ser (slow ! 0),
          exp_n2o := parse_concentration_ser (slow ! 1),
          exp_aa1 := parse_concentration_ser (slow ! 2),
          exp_aa2 := parse_concentration_ser (slow ! 3),
          exp_o2 := parse_concentration_ser (slow ! 4) \<rparr>"

definition parse_mom_vals_ser ::
  "u8 list \<Rightarrow> gas_sensor_mom_vals_t \<Rightarrow> gas_sensor_mom_vals_t" where
  "parse_mom_vals_ser slow mom =
     mom\<lparr> mom_co2 := parse_concentration_ser (slow ! 0),
          mom_n2o := parse_concentration_ser (slow ! 1),
          mom_aa1 := parse_concentration_ser (slow ! 2),
          mom_aa2 := parse_concentration_ser (slow ! 3),
          mom_o2 := parse_concentration_ser (slow ! 4) \<rparr>"

definition parse_gen_vals_ser ::
  "u8 list \<Rightarrow> gas_sensor_gen_vals_t \<Rightarrow> gas_sensor_gen_vals_t" where
  "parse_gen_vals_ser slow gen =
     gen\<lparr> resp_rate :=
            (if slow ! 0 = GAS_SENSOR_NO_DATA then GAS_SENSOR_NO_DATA else slow ! 0),
          time_since_breath :=
            (if slow ! 1 = GAS_SENSOR_NO_DATA then GAS_SENSOR_NO_DATA else slow ! 1),
          primary_agent :=
            (if slow ! 2 = GAS_SENSOR_NO_DATA then 0 else uint (slow ! 2)),
          secondary_agent :=
            (if slow ! 3 = GAS_SENSOR_NO_DATA then 0 else uint (slow ! 3)),
          atm_pressure :=
            (if slow ! 4 = GAS_SENSOR_NO_DATA \<or> slow ! 5 = GAS_SENSOR_NO_DATA
             then GAS_SENSOR_CONC_INVALID
             else let raw_pressure = parse_uint16_be (drop 4 slow)
                  in of_nat (unat raw_pressure) / 10) \<rparr>"

definition parse_sensor_regs_ser ::
  "u8 list \<Rightarrow> gas_sensor_sensor_regs_t \<Rightarrow> gas_sensor_sensor_regs_t" where
  "parse_sensor_regs_ser slow regs =
     regs\<lparr> mode := uint (slow ! 0 AND 0x07),
           error := (error regs)
             \<lparr> sw_error := slow ! 2 AND 0x01 \<noteq> 0,
               hw_error := slow ! 2 AND 0x02 \<noteq> 0,
               motor_fail := slow ! 2 AND 0x04 \<noteq> 0,
               uncalibrated := slow ! 2 AND 0x08 \<noteq> 0 \<rparr>,
           adapter := (adapter regs)
             \<lparr> replace_adapter := slow ! 3 AND 0x01 \<noteq> 0,
               no_adapter := slow ! 3 AND 0x02 \<noteq> 0,
               o2_clogged := slow ! 3 AND 0x04 \<noteq> 0 \<rparr>,
           data_valid := (data_valid regs)
             \<lparr> co2_out_of_range := slow ! 4 AND 0x01 \<noteq> 0,
               n2o_out_of_range := slow ! 4 AND 0x02 \<noteq> 0,
               agent_out_of_range := slow ! 4 AND 0x04 \<noteq> 0,
               o2_out_of_range := slow ! 4 AND 0x08 \<noteq> 0,
               temp_out_of_range := slow ! 4 AND 0x10 \<noteq> 0,
               pressure_out_of_range := slow ! 4 AND 0x20 \<noteq> 0,
               zero_calibration_required := slow ! 4 AND 0x40 \<noteq> 0 \<rparr> \<rparr>"

definition parse_config_data_ser ::
  "u8 list \<Rightarrow> gas_sensor_config_data_t \<Rightarrow> gas_sensor_config_data_t" where
  "parse_config_data_ser slow config =
     config\<lparr> o2_fitted := slow ! 0 AND 0x01 \<noteq> 0,
             co2_fitted := slow ! 0 AND 0x02 \<noteq> 0,
             n2o_fitted := slow ! 0 AND 0x04 \<noteq> 0,
             halothane_fitted := slow ! 0 AND 0x08 \<noteq> 0,
             enflurane_fitted := slow ! 0 AND 0x10 \<noteq> 0,
             isoflurane_fitted := slow ! 0 AND 0x20 \<noteq> 0,
             sevoflurane_fitted := slow ! 0 AND 0x40 \<noteq> 0,
             desflurane_fitted := slow ! 0 AND 0x80 \<noteq> 0,
             hw_revision := ucast (slow ! 1),
             sw_revision := parse_uint16_be (drop 2 slow),
             id_config := slow ! 5 AND 0x01 \<noteq> 0,
             comm_protocol_rev := drop_bit 1 (slow ! 5) AND 0x7F \<rparr>"

subsection \<open>Frame decoder\<close>

text \<open>
  The status block (lines 269-279 and 731-740, the same text): eight bit tests on byte 3,
  written through \<^verbatim>\<open>status\<close> when it is not \<^verbatim>\<open>NULL\<close>.
\<close>

definition parse_status_block ::
  "u8 \<Rightarrow> gas_sensor_status_t option \<Rightarrow> gas_sensor_status_t option" where
  "parse_status_block status_byte status =
     (case status of
        None \<Rightarrow> None
      | Some st \<Rightarrow>
          Some (st\<lparr> breath_detected := status_byte AND 0x01 \<noteq> 0,
                    apnea := status_byte AND 0x02 \<noteq> 0,
                    o2_low := status_byte AND 0x04 \<noteq> 0,
                    o2_replace := status_byte AND 0x08 \<noteq> 0,
                    check_adapter := status_byte AND 0x10 \<noteq> 0,
                    accuracy_out_of_range := status_byte AND 0x20 \<noteq> 0,
                    sensor_error := status_byte AND 0x40 \<noteq> 0,
                    o2_calibration_required := status_byte AND 0x80 \<noteq> 0 \<rparr>))"

text \<open>The waveform block of the parsing library (lines 260-266).\<close>

definition parse_waveform_block_lib ::
  "u8 list \<Rightarrow> gas_sensor_waveform_t option \<Rightarrow> gas_sensor_waveform_t option" where
  "parse_waveform_block_lib frame_data waveform =
     (case waveform of
        None \<Rightarrow> None
      | Some w \<Rightarrow>
          Some (w\<lparr> wave_co2 := parse_concentration_2byte (parse_uint16_be (drop 4 frame_data)),
                   wave_n2o := parse_concentration_2byte (parse_uint16_be (drop 6 frame_data)),
                   wave_aa1 := parse_concentration_2byte (parse_uint16_be (drop 8 frame_data)),
                   wave_aa2 := parse_concentration_2byte (parse_uint16_be (drop 10 frame_data)),
                   wave_o2 := parse_concentration_2byte (parse_uint16_be (drop 12 frame_data)) \<rparr>))"

text \<open>
  The waveform block of the serial implementation (lines 721-728): the raw word divided
  by 100, with no test for \<^verbatim>\<open>0xFFFF\<close>.
\<close>

definition parse_waveform_block_ser ::
  "u8 list \<Rightarrow> gas_sensor_waveform_t option \<Rightarrow> gas_sensor_waveform_t option" where
  "parse_waveform_block_ser frame_data waveform =
     (case waveform of
        None \<Rightarrow> None
      | Some w \<Rightarrow>
          let wave = drop 4 frame_data
          in Some (w\<lparr> wave_co2 := of_nat (unat (parse_uint16_be (drop 0 wave))) / 100,
                      wave_n2o := of_nat (unat (parse_uint16_be (drop 2 wave))) / 100,
                      wave_aa1 := of_nat (unat (parse_uint16_be (drop 4 wave))) / 100,
                      wave_aa2 := of_nat (unat (parse_uint16_be (drop 6 wave))) / 100,
                      wave_o2 := of_nat (unat (parse_uint16_be (drop 8 wave))) / 100 \<rparr>))"

text \<open>
  The switch of the parsing library (lines 295-322), entered with a frame id below 10:
  ids 7, 8 and 9 do nothing, and the switch has no default.
\<close>

definition slow_data_switch_lib ::
  "u8 \<Rightarrow> u8 list \<Rightarrow> gas_sensor_slow_data_t \<Rightarrow> gas_sensor_slow_data_t" where
  "slow_data_switch_lib frame_id slow_data_bytes sd =
     (if frame_id = 0x00 then sd\<lparr>insp_vals := parse_insp_vals_lib slow_data_bytes (insp_vals sd)\<rparr>
      else if frame_id = 0x01 then sd\<lparr>exp_vals := parse_exp_vals_lib slow_data_bytes (exp_vals sd)\<rparr>
      else if frame_id = 0x02 then sd\<lparr>mom_vals := parse_mom_vals_lib slow_data_bytes (mom_vals sd)\<rparr>
      else if frame_id = 0x03 then sd\<lparr>gen_vals := parse_gen_vals_lib slow_data_bytes (gen_vals sd)\<rparr>
      else if frame_id = 0x04 then
        sd\<lparr>sensor_regs := parse_sensor_regs_lib slow_data_bytes (sensor_regs sd)\<rparr>
      else if frame_id = 0x05 then
        sd\<lparr>config_data := parse_config_data_lib slow_data_bytes (config_data sd)\<rparr>
      else if frame_id = 0x06 then
        sd\<lparr>service_data := parse_service_data slow_data_bytes (service_data sd)\<rparr>
      else sd)"

text \<open>\<^verbatim>\<open>gas_sensor_parse_frame\<close> of the parsing library (lines 239-326).\<close>

definition gas_sensor_parse_frame_lib ::
  "u8 list option \<Rightarrow> gas_sensor_slow_data_t option \<Rightarrow> gas_sensor_waveform_t option \<Rightarrow>
   gas_sensor_status_t option \<Rightarrow>
   int \<times> gas_sensor_slow_data_t option \<times> gas_sensor_waveform_t option \<times>
   gas_sensor_status_t option" where
  "gas_sensor_parse_frame_lib frame_data slow_data waveform status =
     (case frame_data of
        None \<Rightarrow> (GAS_SENSOR_ERR_NULL_PARAM, slow_data, waveform, status)
      | Some fd \<Rightarrow>
          if fd ! 0 \<noteq> GAS_SENSOR_FLAG1 \<or> fd ! 1 \<noteq> GAS_SENSOR_FLAG2
          then (GAS_SENSOR_ERR_INVALID_FRAME, slow_data, waveform, status)
          else if \<not> gas_sensor_verify_checksum_lib (Some fd)
          then (GAS_SENSOR_ERR_CHECKSUM, slow_data, waveform, status)
          else
            let waveform' = parse_waveform_block_lib fd waveform;
                status' = parse_status_block (fd ! 3) status
            in (case slow_data of
                  None \<Rightarrow> (GAS_SENSOR_OK, None, waveform', status')
                | Some sd \<Rightarrow>
                    let frame_id = fd ! 2
                    in if frame_id \<ge> GAS_SENSOR_FRAME_ID_MAX
                       then (GAS_SENSOR_ERR_INVALID_FRAME, Some sd, waveform', status')
                       else
                         let sd' = sd\<lparr>last_frame_id := frame_id\<rparr>;
                             slow_data_bytes = drop 13 fd
                         in (GAS_SENSOR_OK,
                             Some (slow_data_switch_lib frame_id slow_data_bytes sd'),
                             waveform', status')))"

text \<open>
  The switch of the serial implementation (lines 747-776): \<open>None\<close> is the default
  case, which returns \<^verbatim>\<open>GAS_SENSOR_ERR_INVALID_FRAME\<close>.
\<close>

definition slow_data_switch_ser ::
  "u8 \<Rightarrow> u8 list \<Rightarrow> gas_sensor_slow_data_t \<Rightarrow> gas_sensor_slow_data_t option" where
  "slow_data_switch_ser frame_id slow sd =
     (if frame_id = 0x00 then Some (sd\<lparr>insp_vals := parse_insp_vals_ser slow (insp_vals sd)\<rparr>)
      else if frame_id = 0x01 then Some (sd\<lparr>exp_vals := parse_exp_vals_ser slow (exp_vals sd)\<rparr>)
      else if frame_id = 0x02 then Some (sd\<lparr>mom_vals := parse_mom_vals_ser slow (mom_vals sd)\<rparr>)
      else if frame_id = 0x03 then Some (sd\<lparr>gen_vals := parse_gen_vals_ser slow (gen_vals sd)\<rparr>)
      else if frame_id = 0x04 then
        Some (sd\<lparr>sensor_regs := parse_sensor_regs_ser slow (sensor_regs sd)\<rparr>)
      else if frame_id = 0x05 then
        Some (sd\<lparr>config_data := parse_config_data_ser slow (config_data sd)\<rparr>)
      else if frame_id = 0x06 then
        Some (sd\<lparr>service_data := parse_service_data slow (service_data sd)\<rparr>)
      else if frame_id = 0x07 \<or> frame_id = 0x08 \<or> frame_id = 0x09 then Some sd
      else None)"

text \<open>
  \<^verbatim>\<open>gas_sensor_parse_frame\<close> of the serial implementation (lines 698-780). The frame
  id is stored in \<^verbatim>\<open>last_frame_id\<close> before the switch, so the default case returns the
  error with that store done.
\<close>

definition gas_sensor_parse_frame_ser ::
  "u8 list option \<Rightarrow> gas_sensor_slow_data_t option \<Rightarrow> gas_sensor_waveform_t option \<Rightarrow>
   gas_sensor_status_t option \<Rightarrow>
   int \<times> gas_sensor_slow_data_t option \<times> gas_sensor_waveform_t option \<times>
   gas_sensor_status_t option" where
  "gas_sensor_parse_frame_ser frame_data slow_data waveform status =
     (case frame_data of
        None \<Rightarrow> (GAS_SENSOR_ERR_NULL_PARAM, slow_data, waveform, status)
      | Some fd \<Rightarrow>
          if fd ! 0 \<noteq> GAS_SENSOR_FLAG1 \<or> fd ! 1 \<noteq> GAS_SENSOR_FLAG2
          then (GAS_SENSOR_ERR_INVALID_FRAME, slow_data, waveform, status)
          else if \<not> gas_sensor_verify_checksum_ser (Some fd)
          then (GAS_SENSOR_ERR_CHECKSUM, slow_data, waveform, status)
          else
            let frame_id = fd ! 2;
                status_byte = fd ! 3;
                waveform' = parse_waveform_block_ser fd waveform;
                status' = parse_status_block status_byte status
            in (case slow_data of
                  None \<Rightarrow> (GAS_SENSOR_OK, None, waveform', status')
                | Some sd \<Rightarrow>
                    let slow = drop 14 fd;
                        sd' = sd\<lparr>last_frame_id := frame_id\<rparr>
                    in (case slow_data_switch_ser frame_id slow sd' of
                          None \<Rightarrow> (GAS_SENSOR_ERR_INVALID_FRAME, Some sd', waveform', status')
                        | Some sd'' \<Rightarrow> (GAS_SENSOR_OK, Some sd'', waveform', status'))))"

subsection \<open>Initialising the aggregate\<close>

text \<open>\<^verbatim>\<open>gas_sensor_init_slow_data\<close> of the parsing library (lines 348-376).\<close>

definition gas_sensor_init_slow_data_lib ::
  "gas_sensor_slow_data_t option \<Rightarrow> gas_sensor_slow_data_t option" where
  "gas_sensor_init_slow_data_lib slow_data =
     (case slow_data of
        None \<Rightarrow> None
      | Some _ \<Rightarrow>
          let sd = memset_zero_slow_data
          in Some (sd\<lparr>
               insp_vals := (insp_vals sd)
                 \<lparr> insp_co2 := GAS_SENSOR_CONC_INVALID, insp_n2o := GAS_SENSOR_CONC_INVALID,
                   insp_aa1 := GAS_SENSOR_CONC_INVALID, insp_aa2 := GAS_SENSOR_CONC_INVALID,
                   insp_o2 := GAS_SENSOR_CONC_INVALID \<rparr>,
               exp_vals := (exp_vals sd)
                 \<lparr> exp_co2 := GAS_SENSOR_CONC_INVALID, exp_n2o := GAS_SENSOR_CONC_INVALID,
                   exp_aa1 := GAS_SENSOR_CONC_INVALID, exp_aa2 := GAS_SENSOR_CONC_INVALID,
                   exp_o2 := GAS_SENSOR_CONC_INVALID \<rparr>,
               mom_vals := (mom_vals sd)
                 \<lparr> mom_co2 := GAS_SENSOR_CONC_INVALID, mom_n2o := GAS_SENSOR_CONC_INVALID,
                   mom_aa1 := GAS_SENSOR_CONC_INVALID, mom_aa2 := GAS_SENSOR_CONC_INVALID,
                   mom_o2 := GAS_SENSOR_CONC_INVALID \<rparr>,
               gen_vals := (gen_vals sd)\<lparr> atm_pressure := GAS_SENSOR_CONC_INVALID \<rparr> \<rparr>))"

text \<open>\<^verbatim>\<open>gas_sensor_init_slow_data\<close> of the serial implementation (lines 900-933).\<close>

definition gas_sensor_init_slow_data_ser ::
  "gas_sensor_slow_data_t option \<Rightarrow> gas_sensor_slow_data_t option" where
  "gas_sensor_init_slow_data_ser slow_data =
     (case slow_data of
        None \<Rightarrow> None
      | Some _ \<Rightarrow>
          let sd = memset_zero_slow_data
          in Some (sd\<lparr>
               last_frame_id := 0xFF,
               insp_vals := (insp_vals sd)
                 \<lparr> insp_co2 := GAS_SENSOR_CONC_INVALID, insp_n2o := GAS_SENSOR_CONC_INVALID,
                   insp_aa1 := GAS_SENSOR_CONC_INVALID, insp_aa2 := GAS_SENSOR_CONC_INVALID,
                   insp_o2 := GAS_SENSOR_CONC_INVALID \<rparr>,
               exp_vals := (exp_vals sd)
                 \<lparr> exp_co2 := GAS_SENSOR_CONC_INVALID, exp_n2o := GAS_SENSOR_CONC_INVALID,
                   exp_aa1 := GAS_SENSOR_CONC_INVALID, exp_aa2 := GAS_SENSOR_CONC_INVALID,
                   exp_o2 := GAS_SENSOR_CONC_INVALID \<rparr>,
               mom_vals := (mom_vals sd)
                 \<lparr> mom_co2 := GAS_SENSOR_CONC_INVALID, mom_n2o := GAS_SENSOR_CONC_INVALID,
                   mom_aa1 := GAS_SENSOR_CONC_INVALID, mom_aa2 := GAS_SENSOR_CONC_INVALID,
                   mom_o2 := GAS_SENSOR_CONC_INVALID \<rparr>,
               gen_vals := (gen_vals sd)
                 \<lparr> resp_rate := GAS_SENSOR_NO_DATA,
                   time_since_breath := GAS_SENSOR_NO_DATA,
                   atm_pressure := GAS_SENSOR_CONC_INVALID \<rparr> \<rparr>))"

subsection \<open>Stream synchroniser of the serial implementation\<close>

text \<open>
  \<^verbatim>\<open>struct gas_sensor_handle\<close> (lines 420-430) without the descriptor of the serial
  port. \<open>rx_buffer\<close> is the array of 256 bytes and \<open>rx_buffer_len\<close> the C \<^verbatim>\<open>int\<close>
  beside it. The callback is a function of the contents it is shown, to its return
  value; \<open>None\<close> is no callback.
\<close>

type_synonym gas_sensor_callback_t =
  "gas_sensor_slow_data_t \<Rightarrow> gas_sensor_waveform_t option \<Rightarrow> gas_sensor_status_t option \<Rightarrow> int"

record gas_sensor_handle =
  handle_callback :: "gas_sensor_callback_t option"
  handle_slow_data :: gas_sensor_slow_data_t
  rx_buffer :: "u8 list"
  rx_buffer_len :: int

text \<open>
  What the serial port hands to one call (lines 796-822): a failure (\<^verbatim>\<open>select\<close>
  timed out or failed, \<^verbatim>\<open>read\<close> or \<^verbatim>\<open>ReadFile\<close> failed), or the bytes that were
  waiting, of which \<^verbatim>\<open>read(fd, temp_buffer, sizeof(temp_buffer))\<close> takes at most 128.
\<close>

datatype serial_port_read = Read_Failed | Read_Bytes "u8 list"

text \<open>
  \<^verbatim>\<open>memcpy(&buf[off], src, n)\<close> with \<open>n = length src\<close>, and
  \<^verbatim>\<open>memmove(buf, &buf[from], n)\<close>, on an array held as a list.
\<close>

definition memcpy_at :: "u8 list \<Rightarrow> int \<Rightarrow> u8 list \<Rightarrow> u8 list" where
  "memcpy_at buf off src = take (nat off) buf @ src @ drop (nat off + length src) buf"

definition memmove_front :: "u8 list \<Rightarrow> int \<Rightarrow> int \<Rightarrow> u8 list" where
  "memmove_front buf from n = take (nat n) (drop (nat from) buf) @ drop (nat n) buf"

text \<open>
  The scan for the sync pattern (lines 838-844): the loop from index \<open>i\<close>, returning
  the first index at which \<^verbatim>\<open>0xAA 0x55\<close> stands, or -1.
\<close>

function find_frame_start :: "u8 list \<Rightarrow> int \<Rightarrow> int \<Rightarrow> int" where
  "find_frame_start buf len i =
     (if i < len - 1 then
        (if buf ! nat i = GAS_SENSOR_FLAG1 \<and> buf ! nat (i + 1) = GAS_SENSOR_FLAG2 then i
         else find_frame_start buf len (i + 1))
      else - 1)"
  by pat_completeness auto
termination
  by (relation "measure (\<lambda>(buf, len, i). nat (len - 1 - i))") auto

declare find_frame_start.simps [simp del]

text \<open>
  Appending the bytes read (lines 825-835): when they do not fit behind the bytes held,
  the fill length is reset to 0 first.
\<close>

definition rx_append :: "gas_sensor_handle \<Rightarrow> u8 list \<Rightarrow> gas_sensor_handle" where
  "rx_append h temp_buffer =
     (let bytes_read = int (length temp_buffer)
      in if bytes_read > 0 then
           let h0 = (if rx_buffer_len h + bytes_read > 256 then h\<lparr>rx_buffer_len := 0\<rparr> else h)
           in h0\<lparr> rx_buffer := memcpy_at (rx_buffer h0) (rx_buffer_len h0) temp_buffer,
                   rx_buffer_len := rx_buffer_len h0 + bytes_read \<rparr>
         else h)"

text \<open>
  Removing \<open>k\<close> bytes from the front, the shape of the three removals (lines 853-854,
  860-861 and 874-876): \<^verbatim>\<open>memmove(buf, &buf[k], len - k); len -= k\<close>.
\<close>

definition rx_discard :: "gas_sensor_handle \<Rightarrow> int \<Rightarrow> gas_sensor_handle" where
  "rx_discard h k =
     h\<lparr> rx_buffer := memmove_front (rx_buffer h) k (rx_buffer_len h - k),
        rx_buffer_len := rx_buffer_len h - k \<rparr>"

text \<open>
  \<^verbatim>\<open>gas_sensor_read_frame\<close> (lines 782-898). The result is the return value, the
  handle, and the contents behind the three output pointers.
\<close>

definition gas_sensor_read_frame ::
  "gas_sensor_handle option \<Rightarrow> serial_port_read \<Rightarrow> gas_sensor_slow_data_t option \<Rightarrow>
   gas_sensor_waveform_t option \<Rightarrow> gas_sensor_status_t option \<Rightarrow>
   int \<times> gas_sensor_handle option \<times> gas_sensor_slow_data_t option \<times>
   gas_sensor_waveform_t option \<times> gas_sensor_status_t option" where
  "gas_sensor_read_frame handle port slow_data waveform status =
     (case handle of
        None \<Rightarrow> (GAS_SENSOR_ERR_NULL_PARAM, None, slow_data, waveform, status)
      | Some h \<Rightarrow>
      (case port of
        Read_Failed \<Rightarrow> (GAS_SENSOR_ERR_SERIAL_READ, Some h, slow_data, waveform, status)
      | Read_Bytes bytes \<Rightarrow>
          let temp_buffer = take 128 bytes;
              h1 = rx_append h temp_buffer;
              frame_start = find_frame_start (rx_buffer h1) (rx_buffer_len h1) 0
          in if frame_start = - 1 then
               (if rx_buffer_len h1 < 2
                then (GAS_SENSOR_ERR_SERIAL_READ, Some h1, slow_data, waveform, status)
                else (GAS_SENSOR_ERR_INVALID_FRAME, Some (rx_discard h1 1),
                      slow_data, waveform, status))
             else
               let h2 = (if frame_start > 0 then rx_discard h1 frame_start else h1)
               in if rx_buffer_len h2 < GAS_SENSOR_FRAME_SIZE
                  then (GAS_SENSOR_ERR_SERIAL_READ, Some h2, slow_data, waveform, status)
                  else
                    (case gas_sensor_parse_frame_ser (Some (rx_buffer h2))
                            (Some (handle_slow_data h2)) waveform status of
                       (result, agg, waveform', status') \<Rightarrow>
                         let h3 = (case agg of
                                     None \<Rightarrow> h2
                                   | Some sd \<Rightarrow> h2\<lparr>handle_slow_data := sd\<rparr>);
                             h4 = (if result = GAS_SENSOR_OK \<or> result = GAS_SENSOR_ERR_CHECKSUM
                                   then rx_discard h3 GAS_SENSOR_FRAME_SIZE
                                   else h3)
                         in if result \<noteq> GAS_SENSOR_OK
                            then (result, Some h4, slow_data, waveform', status')
                            else
                              let slow_data' = (case slow_data of
                                                  None \<Rightarrow> None
                                                | Some _ \<Rightarrow> Some (handle_slow_data h4))
                              in (case handle_callback h4 of
                                    None \<Rightarrow> (result, Some h4, slow_data', waveform', status')
                                  | Some cb \<Rightarrow>
                                      if cb (handle_slow_data h4) waveform' status' \<noteq> 0
                                      then (GAS_SENSOR_ERR_CALLBACK, Some h4, slow_data',
                                            waveform', status')
                                      else (result, Some h4, slow_data', waveform', status')))))"

text \<open>
  The state of the synchroniser is well formed: the array has its 256 bytes and the fill
  length lies between 0 and 256.
\<close>

definition rx_buffer_ok :: "gas_sensor_handle \<Rightarrow> bool" where
  "rx_buffer_ok h \<longleftrightarrow>
     length (rx_buffer h) = 256 \<and> 0 \<le> rx_buffer_len h \<and> rx_buffer_len h \<le> 256"

subsection \<open>Frames and predicates used in the statements\<close>

text \<open>The frame of \<^verbatim>\<open>example_parse_raw_frame\<close> in \<^verbatim>\<open>gas_sensor_example.c\<close> (lines 245-249).\<close>

definition example_frame :: "u8 list" where
  "example_frame =
     [0xAA, 0x55, 0x03, 0x00, 0x00, 0x00, 0x00, 0x00, 0x00, 0x00, 0x00, 0x00,
      0x06, 0x40, 0x00, 0xFF, 0x04, 0x00, 0x03, 0xF5, 0xBC]"

text \<open>
  Three frames with valid sync bytes and checksum: frame id 10; frame id 7; frame id 0
  with the first waveform word \<^verbatim>\<open>0xFFFF\<close>.
\<close>

definition bad_id_frame :: "u8 list" where
  "bad_id_frame =
     [0xAA, 0x55, 0x0A, 0x00, 0x00, 0x00, 0x00, 0x00, 0x00, 0x00, 0x00, 0x00,
      0x00, 0x00, 0x00, 0x00, 0x00, 0x00, 0x00, 0x00, 0xF6]"

definition reserved_id_frame :: "u8 list" where
  "reserved_id_frame =
     [0xAA, 0x55, 0x07, 0x00, 0x00, 0x00, 0x00, 0x00, 0x00, 0x00, 0x00, 0x00,
      0x00, 0x00, 0x00, 0x00, 0x00, 0x00, 0x00, 0x00, 0xF9]"

definition no_data_wave_frame :: "u8 list" where
  "no_data_wave_frame =
     [0xAA, 0x55, 0x00, 0x00, 0xFF, 0xFF, 0x00, 0x00, 0x00, 0x00, 0x00, 0x00,
      0x00, 0x00, 0x00, 0x00, 0x00, 0x00, 0x00, 0x00, 0x02]"

text \<open>
  Every slot of the aggregate other than the one of frame id \<open>k\<close> has the same content
  in \<open>sd'\<close> as in \<open>sd\<close>.
\<close>

definition other_slots_kept ::
  "u8 \<Rightarrow> gas_sensor_slow_data_t \<Rightarrow> gas_sensor_slow_data_t \<Rightarrow> bool" where
  "other_slots_kept k sd sd' \<longleftrightarrow>
     (k \<noteq> 0 \<longrightarrow> insp_vals sd' = insp_vals sd) \<and>
     (k \<noteq> 1 \<longrightarrow> exp_vals sd' = exp_vals sd) \<and>
     (k \<noteq> 2 \<longrightarrow> mom_vals sd' = mom_vals sd) \<and>
     (k \<noteq> 3 \<longrightarrow> gen_vals sd' = gen_vals sd) \<and>
     (k \<noteq> 4 \<longrightarrow> sensor_regs sd' = sensor_regs sd) \<and>
     (k \<noteq> 5 \<longrightarrow> config_data sd' = config_data sd) \<and>
     (k \<noteq> 6 \<longrightarrow> service_data sd' = service_data sd)"

text \<open>
  The values a slot is to hold, written on the bytes of the frame and not through the
  decoder: a one-byte percentage (\<^verbatim>\<open>0xFF\<close> is the invalid value \<open>-1\<close>, any other byte
  is divided by the scale) and a big-endian 16 bit word. Then: the slot of the aggregate
  that the frame id of \<open>b\<close> selects holds, in \<open>sd'\<close>, the payload of \<open>b\<close> field by field,
  whatever it held before, in the layout of the parsing library (payload from byte 13,
  tenths of a percent) and in that of the serial implementation (payload from byte 14,
  whole percents).
\<close>

definition percent_of_byte :: "nat \<Rightarrow> u8 \<Rightarrow> cfloat" where
  "percent_of_byte scale raw = (if raw = 0xFF then - 1 else of_nat (unat raw) / of_nat scale)"

definition word_of_bytes :: "u8 \<Rightarrow> u8 \<Rightarrow> u16" where
  "word_of_bytes hi lo = of_nat (unat hi * 256 + unat lo)"

definition slot_decoded_lib :: "u8 list \<Rightarrow> gas_sensor_slow_data_t \<Rightarrow> bool" where
  "slot_decoded_lib b sd' \<longleftrightarrow>
     (b ! 2 = 0 \<longrightarrow> insp_vals sd' =
        \<lparr> insp_co2 = percent_of_byte 10 (b ! 13), insp_n2o = percent_of_byte 10 (b ! 14),
          insp_aa1 = percent_of_byte 10 (b ! 15), insp_aa2 = percent_of_byte 10 (b ! 16),
          insp_o2 = percent_of_byte 10 (b ! 17) \<rparr>) \<and>
     (b ! 2 = 1 \<longrightarrow> exp_vals sd' =
        \<lparr> exp_co2 = percent_of_byte 10 (b ! 13), exp_n2o = percent_of_byte 10 (b ! 14),
          exp_aa1 = percent_of_byte 10 (b ! 15), exp_aa2 = percent_of_byte 10 (b ! 16),
          exp_o2 = percent_of_byte 10 (b ! 17) \<rparr>) \<and>
     (b ! 2 = 2 \<longrightarrow> mom_vals sd' =
        \<lparr> mom_co2 = percent_of_byte 10 (b ! 13), mom_n2o = percent_of_byte 10 (b ! 14),
          mom_aa1 = percent_of_byte 10 (b ! 15), mom_aa2 = percent_of_byte 10 (b ! 16),
          mom_o2 = percent_of_byte 10 (b ! 17) \<rparr>) \<and>
     (b ! 2 = 3 \<longrightarrow> gen_vals sd' =
        \<lparr> resp_rate = b ! 13, time_since_breath = b ! 14, primary_agent = uint (b ! 15),
          secondary_agent = uint (b ! 16),
          atm_pressure =
            (if word_of_bytes (b ! 17) (b ! 18) = 0xFFFF then - 1
             else of_nat (unat (word_of_bytes (b ! 17) (b ! 18))) / 100) \<rparr>) \<and>
     (b ! 2 = 4 \<longrightarrow> sensor_regs sd' =
        \<lparr> mode = uint (b ! 13),
          error = \<lparr> sw_error = b ! 14 AND 0x01 \<noteq> 0, hw_error = b ! 14 AND 0x02 \<noteq> 0,
                    motor_fail = b ! 14 AND 0x04 \<noteq> 0, uncalibrated = b ! 14 AND 0x08 \<noteq> 0 \<rparr>,
          adapter = \<lparr> replace_adapter = b ! 15 AND 0x01 \<noteq> 0, no_adapter = b ! 15 AND 0x02 \<noteq> 0,
                      o2_clogged = b ! 15 AND 0x04 \<noteq> 0 \<rparr>,
          data_valid =
            \<lparr> co2_out_of_range = b ! 16 AND 0x01 \<noteq> 0, n2o_out_of_range = b ! 16 AND 0x02 \<noteq> 0,
              agent_out_of_range = b ! 16 AND 0x04 \<noteq> 0, o2_out_of_range = b ! 16 AND 0x08 \<noteq> 0,
              temp_out_of_range = b ! 16 AND 0x10 \<noteq> 0,
              pressure_out_of_range = b ! 16 AND 0x20 \<noteq> 0,
              zero_calibration_required = b ! 16 AND 0x40 \<noteq> 0 \<rparr> \<rparr>) \<and>
     (b ! 2 = 5 \<longrightarrow> config_data sd' =
        \<lparr> o2_fitted = b ! 13 AND 0x01 \<noteq> 0, co2_fitted = b ! 13 AND 0x02 \<noteq> 0,
          n2o_fitted = b ! 13 AND 0x04 \<noteq> 0, halothane_fitted = b ! 13 AND 0x08 \<noteq> 0,
          enflurane_fitted = b ! 13 AND 0x10 \<noteq> 0, isoflurane_fitted = b ! 13 AND 0x20 \<noteq> 0,
          sevoflurane_fitted = b ! 13 AND 0x40 \<noteq> 0, desflurane_fitted = b ! 13 AND 0x80 \<noteq> 0,
          hw_revision = word_of_bytes (b ! 15) (b ! 16),
          sw_revision = word_of_bytes (b ! 17) (b ! 18),
          id_config = False, comm_protocol_rev = 0 \<rparr>) \<and>
     (b ! 2 = 6 \<longrightarrow> service_data sd' =
        \<lparr> serial_number = word_of_bytes (b ! 13) (b ! 14),
          service_status =
            \<lparr> zero_disabled = b ! 15 AND 0x01 \<noteq> 0, zero_in_progress = b ! 15 AND 0x02 \<noteq> 0,
              span_calibration_error = b ! 15 AND 0x04 \<noteq> 0,
              span_calibration_in_progress = b ! 15 AND 0x08 \<noteq> 0 \<rparr> \<rparr>)"

definition slot_decoded_ser :: "u8 list \<Rightarrow> gas_sensor_slow_data_t \<Rightarrow> bool" where
  "slot_decoded_ser b sd' \<longleftrightarrow>
     (b ! 2 = 0 \<longrightarrow> insp_vals sd' =
        \<lparr> insp_co2 = percent_of_byte 1 (b ! 14), insp_n2o = percent_of_byte 1 (b ! 15),
          insp_aa1 = percent_of_byte 1 (b ! 16), insp_aa2 = percent_of_byte 1 (b ! 17),
          insp_o2 = percent_of_byte 1 (b ! 18) \<rparr>) \<and>
     (b ! 2 = 1 \<longrightarrow> exp_vals sd' =
        \<lparr> exp_co2 = percent_of_byte 1 (b ! 14), exp_n2o = percent_of_byte 1 (b ! 15),
          exp_aa1 = percent_of_byte 1 (b ! 16), exp_aa2 = percent_of_byte 1 (b ! 17),
          exp_o2 = percent_of_byte 1 (b ! 18) \<rparr>) \<and>
     (b ! 2 = 2 \<longrightarrow> mom_vals sd' =
        \<lparr> mom_co2 = percent_of_byte 1 (b ! 14), mom_n2o = percent_of_byte 1 (b ! 15),
          mom_aa1 = percent_of_byte 1 (b ! 16), mom_aa2 = percent_of_byte 1 (b ! 17),
          mom_o2 = percent_of_byte 1 (b ! 18) \<rparr>) \<and>
     (b ! 2 = 3 \<longrightarrow> gen_vals sd' =
        \<lparr> resp_rate = b ! 14, time_since_breath = b ! 15,
          primary_agent = (if b ! 16 = 0xFF then 0 else uint (b ! 16)),
          secondary_agent = (if b ! 17 = 0xFF then 0 else uint (b ! 17)),
          atm_pressure =
            (if b ! 18 = 0xFF \<or> b ! 19 = 0xFF then - 1
             else of_nat (unat (word_of_bytes (b ! 18) (b ! 19))) / 10) \<rparr>) \<and>
     (b ! 2 = 4 \<longrightarrow> sensor_regs sd' =
        \<lparr> mode = uint (b ! 14 AND 0x07),
          error = \<lparr> sw_error = b ! 16 AND 0x01 \<noteq> 0, hw_error = b ! 16 AND 0x02 \<noteq> 0,
                    motor_fail = b ! 16 AND 0x04 \<noteq> 0, uncalibrated = b ! 16 AND 0x08 \<noteq> 0 \<rparr>,
          adapter = \<lparr> replace_adapter = b ! 17 AND 0x01 \<noteq> 0, no_adapter = b ! 17 AND 0x02 \<noteq> 0,
                      o2_clogged = b ! 17 AND 0x04 \<noteq> 0 \<rparr>,
          data_valid =
            \<lparr> co2_out_of_range = b ! 18 AND 0x01 \<noteq> 0, n2o_out_of_range = b ! 18 AND 0x02 \<noteq> 0,
              agent_out_of_range = b ! 18 AND 0x04 \<noteq> 0, o2_out_of_range = b ! 18 AND 0x08 \<noteq> 0,
              temp_out_of_range = b ! 18 AND 0x10 \<noteq> 0,
              pressure_out_of_range = b ! 18 AND 0x20 \<noteq> 0,
              zero_calibration_required = b ! 18 AND 0x40 \<noteq> 0 \<rparr> \<rparr>) \<and>
     (b ! 2 = 5 \<longrightarrow> config_data sd' =
        \<lparr> o2_fitted = b ! 14 AND 0x01 \<noteq> 0, co2_fitted = b ! 14 AND 0x02 \<noteq> 0,
          n2o_fitted = b ! 14 AND 0x04 \<noteq> 0, halothane_fitted = b ! 14 AND 0x08 \<noteq> 0,
          enflurane_fitted = b ! 14 AND 0x10 \<noteq> 0, isoflurane_fitted = b ! 14 AND 0x20 \<noteq> 0,
          sevoflurane_fitted = b ! 14 AND 0x40 \<noteq> 0, desflurane_fitted = b ! 14 AND 0x80 \<noteq> 0,
          hw_revision = ucast (b ! 15),
          sw_revision = word_of_bytes (b ! 16) (b ! 17),
          id_config = b ! 19 AND 0x01 \<noteq> 0,
          comm_protocol_rev = drop_bit 1 (b ! 19) AND 0x7F \<rparr>) \<and>
     (b ! 2 = 6 \<longrightarrow> service_data sd' =
        \<lparr> serial_number = word_of_bytes (b ! 14) (b ! 15),
          service_status =
            \<lparr> zero_disabled = b ! 16 AND 0x01 \<noteq> 0, zero_in_progress = b ! 16 AND 0x02 \<noteq> 0,
              span_calibration_error = b ! 16 AND 0x04 \<noteq> 0,
              span_calibration_in_progress = b ! 16 AND 0x08 \<noteq> 0 \<rparr> \<rparr>)"

text \<open>
  The frame pointer is \<^verbatim>\<open>NULL\<close> or points to 21 bytes; and: it points to bytes that do
  not start with the sync pattern.
\<close>

definition frame_21 :: "u8 list option \<Rightarrow> bool" where
  "frame_21 frame_data = (case frame_data of None \<Rightarrow> True | Some b \<Rightarrow> length b = 21)"

definition sync_invalid :: "u8 list option \<Rightarrow> bool" where
  "sync_invalid frame_data =
     (case frame_data of None \<Rightarrow> False | Some b \<Rightarrow> b ! 0 \<noteq> 0xAA \<or> b ! 1 \<noteq> 0x55)"

text \<open>
  The aggregate as \<^verbatim>\<open>gas_sensor_init\<close> leaves it: line 598 runs
  \<^verbatim>\<open>gas_sensor_init_slow_data\<close> on the aggregate of the handle, which overwrites every
  field.
\<close>

definition initial_slow_data :: gas_sensor_slow_data_t where
  "initial_slow_data =
     (case gas_sensor_init_slow_data_ser (Some memset_zero_slow_data) of
        None \<Rightarrow> memset_zero_slow_data
      | Some sd \<Rightarrow> sd)"

text \<open>
  A handle with no callback and an empty receive buffer, as \<^verbatim>\<open>gas_sensor_init\<close> leaves it
  (lines 597-599); the bytes of the array, which \<^verbatim>\<open>malloc\<close> does not set, are taken to
  be 0.
\<close>

definition fresh_handle :: gas_sensor_handle where
  "fresh_handle =
     \<lparr> handle_callback = None, handle_slow_data = initial_slow_data,
       rx_buffer = replicate 256 0, rx_buffer_len = 0 \<rparr>"

text \<open>
  The handle after the frame with id 10 has arrived in an empty buffer, and after the
  example frame has arrived behind it.
\<close>

definition stalled_handle :: gas_sensor_handle where
  "stalled_handle =
     \<lparr> handle_callback = None,
       handle_slow_data = initial_slow_data\<lparr>last_frame_id := 0x0A\<rparr>,
       rx_buffer = bad_id_frame @ replicate 235 0, rx_buffer_len = 21 \<rparr>"

definition stalled_handle_2 :: gas_sensor_handle where
  "stalled_handle_2 =
     \<lparr> handle_callback = None,
       handle_slow_data = initial_slow_data\<lparr>last_frame_id := 0x0A\<rparr>,
       rx_buffer = bad_id_frame @ example_frame @ replicate 214 0, rx_buffer_len = 42 \<rparr>"

section \<open>Constants\<close>

lemmas gas_sensor_codes =
  GAS_SENSOR_OK_def GAS_SENSOR_ERR_INVALID_FRAME_def GAS_SENSOR_ERR_CHECKSUM_def
  GAS_SENSOR_ERR_SERIAL_READ_def GAS_SENSOR_ERR_CALLBACK_def GAS_SENSOR_ERR_NULL_PARAM_def

lemmas gas_sensor_consts =
  GAS_SENSOR_FRAME_SIZE_def GAS_SENSOR_FLAG1_def GAS_SENSOR_FLAG2_def
  GAS_SENSOR_FRAME_ID_MAX_def GAS_SENSOR_NO_DATA_def GAS_SENSOR_CONC_INVALID_def

section \<open>Checksum properties\<close>

lemma upt_2_20: "[2..<20] = [2,3,4,5,6,7,8,9,10,11,12,13,14,15,16,17,18,19::nat]"
  by (simp add: upt_rec)

lemma ucast_minus_32_8: "(ucast (- (x :: 32 word)) :: u8) = - ucast x"
  by (simp add: word_uint_eq_iff unsigned_ucast_eq uint_word_arith_bintrs take_bit_minus)

lemma ucast_minus_16_8: "(ucast (- (s :: u16)) :: u8) = - ucast s"
  by (simp add: word_uint_eq_iff unsigned_ucast_eq uint_word_arith_bintrs take_bit_minus)

lemma ucast_16_32_8: "(ucast (ucast (s :: u16) :: 32 word) :: u8) = ucast s"
  by (rule bit_word_eqI) (auto simp: bit_simps)

lemma int_255_mask: "(255 :: int) = mask 8"
  by (simp add: mask_eq_exp_minus_1)

lemma ucast_and_255: "(ucast ((x :: 32 word) AND 0xFF) :: u8) = ucast x"
  apply (simp add: word_uint_eq_iff unsigned_ucast_eq uint_and)
  apply (simp only: int_255_mask take_bit_eq_mask)
  apply (simp add: and.assoc)
  done

lemma complement_low_byte:
  "(ucast ((NOT (ucast (s :: u16) :: 32 word) + 1) AND 0xFF) :: u8) = ucast (- s)"
proof -
  have "NOT (ucast s :: 32 word) + 1 = - ucast s"
    by (simp add: minus_eq_not_plus_1)
  then show ?thesis
    by (simp only: ucast_and_255 ucast_minus_32_8 ucast_16_32_8 ucast_minus_16_8)
qed

lemma fold_add_u16:
  "fold (\<lambda>i (sum :: u16). sum + f i) xs a = a + (\<Sum>i\<leftarrow>xs. f i)"
  by (induction xs arbitrary: a) (simp_all add: add_ac)

lemma calculate_checksum_spec: "calculate_checksum b = checksum_spec b"
  by (simp only: calculate_checksum_def checksum_spec_def Let_def fold_add_u16
      complement_low_byte add_0)

lemma example_frame_facts:
  "length example_frame = 21" "example_frame ! 0 = 0xAA" "example_frame ! 1 = 0x55"
  "example_frame ! Suc 0 = 0x55" "example_frame ! 2 = 3" "example_frame ! 3 = 0"
  "example_frame ! 20 = 0xBC"
  "calculate_checksum example_frame = 0xBC"
  by (simp_all add: example_frame_def calculate_checksum_def upt_2_20)

text \<open>
  C2 (as amended). For every array \<open>b\<close> of 21 bytes, \<^verbatim>\<open>gas_sensor_verify_checksum\<close> of the
  serial implementation is true exactly when the checksum of the specification (sum of
  bytes 2 to 19 in 16 bits, two's complement, low byte) equals \<open>b[20]\<close>; that of the
  parsing library is true exactly when, besides, \<open>b[0]\<close> is \<^verbatim>\<open>0xAA\<close> and \<open>b[1]\<close> is
  \<^verbatim>\<open>0x55\<close>.
\<close>

theorem verify_checksum_iff:
  assumes "length b = 21"
  shows "gas_sensor_verify_checksum_ser (Some b) = (checksum_spec b = b ! 20) \<and>
         gas_sensor_verify_checksum_lib (Some b) =
           (b ! 0 = 0xAA \<and> b ! 1 = 0x55 \<and> checksum_spec b = b ! 20)"
  by (auto simp: gas_sensor_verify_checksum_ser_def gas_sensor_verify_checksum_lib_def
      calculate_checksum_spec gas_sensor_consts)

theorem verify_checksum_iff_witness:
  "length example_frame = 21 \<and>
   gas_sensor_verify_checksum_ser (Some example_frame) \<and>
   gas_sensor_verify_checksum_lib (Some example_frame)"
  using verify_checksum_iff [of example_frame]
  by (simp add: example_frame_facts calculate_checksum_spec [symmetric])

text \<open>
  The claim as stated fails on the parsing library: 21 zero bytes carry a matching
  checksum and no sync bytes, and are refused.
\<close>

theorem verify_checksum_lib_counterexample:
  "length (replicate 21 (0 :: u8)) = 21 \<and>
   checksum_spec (replicate 21 0) = replicate 21 0 ! 20 \<and>
   \<not> gas_sensor_verify_checksum_lib (Some (replicate 21 0))"
  by (simp add: checksum_spec_def upt_2_20 gas_sensor_verify_checksum_lib_def gas_sensor_consts)

section \<open>The frame decoder on a frame that passes validation\<close>

lemma u8_le_9_cases:
  "(x :: u8) \<le> 9 \<Longrightarrow> x = 0 \<or> x = 1 \<or> x = 2 \<or> x = 3 \<or> x = 4 \<or> x = 5 \<or> x = 6 \<or> x = 7 \<or> x = 8 \<or> x = 9"
  by (simp add: word_le_nat_alt word_unat_eq_iff) arith

lemma parse_frame_lib_valid:
  assumes "b ! 0 = 0xAA" "b ! 1 = 0x55" "calculate_checksum b = b ! 20"
  shows "gas_sensor_parse_frame_lib (Some b) slow_data waveform status =
     (case slow_data of
        None \<Rightarrow> (GAS_SENSOR_OK, None, parse_waveform_block_lib b waveform,
                 parse_status_block (b ! 3) status)
      | Some sd \<Rightarrow>
          if b ! 2 \<ge> 10
          then (GAS_SENSOR_ERR_INVALID_FRAME, Some sd, parse_waveform_block_lib b waveform,
                parse_status_block (b ! 3) status)
          else (GAS_SENSOR_OK,
                Some (slow_data_switch_lib (b ! 2) (drop 13 b) (sd\<lparr>last_frame_id := b ! 2\<rparr>)),
                parse_waveform_block_lib b waveform, parse_status_block (b ! 3) status))"
  using assms
  by (simp add: gas_sensor_parse_frame_lib_def gas_sensor_verify_checksum_lib_def
      gas_sensor_consts Let_def split: option.splits)

lemma parse_frame_ser_valid:
  assumes "b ! 0 = 0xAA" "b ! 1 = 0x55" "calculate_checksum b = b ! 20"
  shows "gas_sensor_parse_frame_ser (Some b) slow_data waveform status =
     (case slow_data of
        None \<Rightarrow> (GAS_SENSOR_OK, None, parse_waveform_block_ser b waveform,
                 parse_status_block (b ! 3) status)
      | Some sd \<Rightarrow>
          (case slow_data_switch_ser (b ! 2) (drop 14 b) (sd\<lparr>last_frame_id := b ! 2\<rparr>) of
             None \<Rightarrow> (GAS_SENSOR_ERR_INVALID_FRAME, Some (sd\<lparr>last_frame_id := b ! 2\<rparr>),
                      parse_waveform_block_ser b waveform, parse_status_block (b ! 3) status)
           | Some sd'' \<Rightarrow> (GAS_SENSOR_OK, Some sd'', parse_waveform_block_ser b waveform,
                      parse_status_block (b ! 3) status)))"
  using assms
  by (simp add: gas_sensor_parse_frame_ser_def gas_sensor_verify_checksum_ser_def
      gas_sensor_consts Let_def split: option.splits)

lemma switch_ser_None: "slow_data_switch_ser k slow sd = None \<longleftrightarrow> k \<ge> 10"
proof
  assume "slow_data_switch_ser k slow sd = None"
  then have "k \<noteq> 0 \<and> k \<noteq> 1 \<and> k \<noteq> 2 \<and> k \<noteq> 3 \<and> k \<noteq> 4 \<and> k \<noteq> 5 \<and> k \<noteq> 6 \<and> k \<noteq> 7 \<and> k \<noteq> 8 \<and> k \<noteq> 9"
    by (simp add: slow_data_switch_ser_def split: if_splits)
  then have "\<not> k \<le> 9" using u8_le_9_cases by blast
  then show "k \<ge> 10" by (simp add: word_le_nat_alt) 
next
  assume "k \<ge> 10"
  then have "k \<noteq> 0 \<and> k \<noteq> 1 \<and> k \<noteq> 2 \<and> k \<noteq> 3 \<and> k \<noteq> 4 \<and> k \<noteq> 5 \<and> k \<noteq> 6 \<and> k \<noteq> 7 \<and> k \<noteq> 8 \<and> k \<noteq> 9"
    by (simp add: word_le_nat_alt word_unat_eq_iff)
  then show "slow_data_switch_ser k slow sd = None"
    by (simp add: slow_data_switch_ser_def)
qed

lemma switch_lib_slots:
  "last_frame_id (slow_data_switch_lib k bs sd) = last_frame_id sd \<and>
   other_slots_kept k sd (slow_data_switch_lib k bs sd)"
  by (simp add: slow_data_switch_lib_def other_slots_kept_def)

lemma switch_ser_slots:
  "slow_data_switch_ser k bs sd = Some sd' \<Longrightarrow>
   last_frame_id sd' = last_frame_id sd \<and> other_slots_kept k sd sd'"
  by (auto simp: slow_data_switch_ser_def other_slots_kept_def split: if_splits)

section \<open>The payload of each slot, byte by byte\<close>

lemma unat_u8_bound: "unat (x :: u8) < 256"
  using unsigned_less [of x] by simp

lemma unat_ucast_u8_u16: "unat (ucast (x :: u8) :: u16) = unat x"
proof -
  have "unat x < 2 ^ 16" using unat_u8_bound [of x] by simp
  then show ?thesis by (simp add: unsigned_ucast_eq take_bit_nat_eq_self)
qed

lemma parse_uint16_be_unat:
  "unat (parse_uint16_be d) = unat (d ! 0) * 256 + unat (d ! 1)"
proof -
  have "push_bit 8 (ucast (d ! 0) :: u16) AND ucast (d ! 1) = 0"
    by (rule bit_word_eqI) (auto simp: bit_simps dest: bit_imp_le_length)
  then have eq: "parse_uint16_be d = push_bit 8 (ucast (d ! 0)) + ucast (d ! 1)"
    unfolding parse_uint16_be_def by (rule disjunctive_add_eq_or [symmetric])
  have small: "unat (d ! 0) * 256 + unat (d ! 1) < 65536"
    using unat_u8_bound [of "d ! 0"] unat_u8_bound [of "d ! 1"] by arith
  then have "(unat (d ! 0) * 256 + unat (d ! 1)) mod 65536 = unat (d ! 0) * 256 + unat (d ! 1)"
    by simp
  moreover have "unat (d ! 0) * 256 mod 65536 = unat (d ! 0) * 256"
    using unat_u8_bound [of "d ! 0"] by simp
  ultimately show ?thesis
    by (simp add: eq unat_word_ariths push_bit_eq_mult unat_ucast_u8_u16)
qed

lemma parse_uint16_be_bytes: "parse_uint16_be [hi, lo] = word_of_bytes hi lo"
proof -
  have "unat (parse_uint16_be [hi, lo]) = unat hi * 256 + unat lo"
    by (simp add: parse_uint16_be_unat)
  then have "of_nat (unat (parse_uint16_be [hi, lo])) = word_of_bytes hi lo"
    by (simp only: word_of_bytes_def)
  then show ?thesis by simp
qed

lemma parse_concentration_bytes:
  "parse_concentration_lib raw = percent_of_byte 10 raw"
  "parse_concentration_ser raw = percent_of_byte 1 raw"
  by (simp_all add: parse_concentration_lib_def parse_concentration_ser_def percent_of_byte_def
      GAS_SENSOR_NO_DATA_def GAS_SENSOR_CONC_INVALID_def)

lemmas codecs_on_bytes =
  parse_concentration_bytes parse_uint16_be_bytes GAS_SENSOR_CONC_INVALID_def

lemma parse_uint16_be_drop:
  "n + 1 < length b \<Longrightarrow> parse_uint16_be (drop n b) = parse_uint16_be [b ! n, b ! (n + 1)]"
  by (simp add: parse_uint16_be_def)

lemma parse_insp_vals_lib_bytes:
  "length b = 21 \<Longrightarrow> parse_insp_vals_lib (drop 13 b) x =
     \<lparr> insp_co2 = parse_concentration_lib (b ! 13), insp_n2o = parse_concentration_lib (b ! 14), insp_aa1 = parse_concentration_lib (b ! 15), insp_aa2 = parse_concentration_lib (b ! 16), insp_o2 = parse_concentration_lib (b ! 17) \<rparr>"
  by (cases x) (simp add: parse_insp_vals_lib_def)

lemma parse_exp_vals_lib_bytes:
  "length b = 21 \<Longrightarrow> parse_exp_vals_lib (drop 13 b) x =
     \<lparr> exp_co2 = parse_concentration_lib (b ! 13), exp_n2o = parse_concentration_lib (b ! 14), exp_aa1 = parse_concentration_lib (b ! 15), exp_aa2 = parse_concentration_lib (b ! 16), exp_o2 = parse_concentration_lib (b ! 17) \<rparr>"
  by (cases x) (simp add: parse_exp_vals_lib_def)

lemma parse_mom_vals_lib_bytes:
  "length b = 21 \<Longrightarrow> parse_mom_vals_lib (drop 13 b) x =
     \<lparr> mom_co2 = parse_concentration_lib (b ! 13), mom_n2o = parse_concentration_lib (b ! 14), mom_aa1 = parse_concentration_lib (b ! 15), mom_aa2 = parse_concentration_lib (b ! 16), mom_o2 = parse_concentration_lib (b ! 17) \<rparr>"
  by (cases x) (simp add: parse_mom_vals_lib_def)

lemma parse_insp_vals_ser_bytes:
  "length b = 21 \<Longrightarrow> parse_insp_vals_ser (drop 14 b) x =
     \<lparr> insp_co2 = parse_concentration_ser (b ! 14), insp_n2o = parse_concentration_ser (b ! 15), insp_aa1 = parse_concentration_ser (b ! 16), insp_aa2 = parse_concentration_ser (b ! 17), insp_o2 = parse_concentration_ser (b ! 18) \<rparr>"
  by (cases x) (simp add: parse_insp_vals_ser_def)

lemma parse_exp_vals_ser_bytes:
  "length b = 21 \<Longrightarrow> parse_exp_vals_ser (drop 14 b) x =
     \<lparr> exp_co2 = parse_concentration_ser (b ! 14), exp_n2o = parse_concentration_ser (b ! 15), exp_aa1 = parse_concentration_ser (b ! 16), exp_aa2 = parse_concentration_ser (b ! 17), exp_o2 = parse_concentration_ser (b ! 18) \<rparr>"
  by (cases x) (simp add: parse_exp_vals_ser_def)

lemma parse_mom_vals_ser_bytes:
  "length b = 21 \<Longrightarrow> parse_mom_vals_ser (drop 14 b) x =
     \<lparr> mom_co2 = parse_concentration_ser (b ! 14), mom_n2o = parse_concentration_ser (b ! 15), mom_aa1 = parse_concentration_ser (b ! 16), mom_aa2 = parse_concentration_ser (b ! 17), mom_o2 = parse_concentration_ser (b ! 18) \<rparr>"
  by (cases x) (simp add: parse_mom_vals_ser_def)

lemma parse_gen_vals_lib_bytes:
  "length b = 21 \<Longrightarrow> parse_gen_vals_lib (drop 13 b) x =
     \<lparr> resp_rate = b ! 13, time_since_breath = b ! 14, primary_agent = uint (b ! 15),
       secondary_agent = uint (b ! 16),
       atm_pressure =
         (if parse_uint16_be [b ! 17, b ! 18] = 0xFFFF then GAS_SENSOR_CONC_INVALID
          else of_nat (unat (parse_uint16_be [b ! 17, b ! 18])) / 100) \<rparr>"
  by (cases x) (simp add: parse_gen_vals_lib_def parse_uint16_be_drop Let_def)

lemma parse_gen_vals_ser_bytes:
  "length b = 21 \<Longrightarrow> parse_gen_vals_ser (drop 14 b) x =
     \<lparr> resp_rate = b ! 14, time_since_breath = b ! 15,
       primary_agent = (if b ! 16 = 0xFF then 0 else uint (b ! 16)),
       secondary_agent = (if b ! 17 = 0xFF then 0 else uint (b ! 17)),
       atm_pressure =
         (if b ! 18 = 0xFF \<or> b ! 19 = 0xFF then GAS_SENSOR_CONC_INVALID
          else of_nat (unat (parse_uint16_be [b ! 18, b ! 19])) / 10) \<rparr>"
  by (cases x) (simp add: parse_gen_vals_ser_def parse_uint16_be_drop Let_def GAS_SENSOR_NO_DATA_def)

lemma parse_sensor_regs_lib_bytes:
  "length b = 21 \<Longrightarrow> parse_sensor_regs_lib (drop 13 b) x =
     \<lparr> mode = uint (b ! 13),
       error = \<lparr> sw_error = b ! 14 AND 0x01 \<noteq> 0, hw_error = b ! 14 AND 0x02 \<noteq> 0,
                 motor_fail = b ! 14 AND 0x04 \<noteq> 0, uncalibrated = b ! 14 AND 0x08 \<noteq> 0 \<rparr>,
       adapter = \<lparr> replace_adapter = b ! 15 AND 0x01 \<noteq> 0, no_adapter = b ! 15 AND 0x02 \<noteq> 0,
                   o2_clogged = b ! 15 AND 0x04 \<noteq> 0 \<rparr>,
       data_valid =
         \<lparr> co2_out_of_range = b ! 16 AND 0x01 \<noteq> 0, n2o_out_of_range = b ! 16 AND 0x02 \<noteq> 0,
           agent_out_of_range = b ! 16 AND 0x04 \<noteq> 0, o2_out_of_range = b ! 16 AND 0x08 \<noteq> 0,
           temp_out_of_range = b ! 16 AND 0x10 \<noteq> 0,
           pressure_out_of_range = b ! 16 AND 0x20 \<noteq> 0,
           zero_calibration_required = b ! 16 AND 0x40 \<noteq> 0 \<rparr> \<rparr>"
  by (cases x, cases "error x", cases "adapter x", cases "data_valid x")
    (simp add: parse_sensor_regs_lib_def Let_def)

lemma parse_sensor_regs_ser_bytes:
  "length b = 21 \<Longrightarrow> parse_sensor_regs_ser (drop 14 b) x =
     \<lparr> mode = uint (b ! 14 AND 0x07),
       error = \<lparr> sw_error = b ! 16 AND 0x01 \<noteq> 0, hw_error = b ! 16 AND 0x02 \<noteq> 0,
                 motor_fail = b ! 16 AND 0x04 \<noteq> 0, uncalibrated = b ! 16 AND 0x08 \<noteq> 0 \<rparr>,
       adapter = \<lparr> replace_adapter = b ! 17 AND 0x01 \<noteq> 0, no_adapter = b ! 17 AND 0x02 \<noteq> 0,
                   o2_clogged = b ! 17 AND 0x04 \<noteq> 0 \<rparr>,
       data_valid =
         \<lparr> co2_out_of_range = b ! 18 AND 0x01 \<noteq> 0, n2o_out_of_range = b ! 18 AND 0x02 \<noteq> 0,
           agent_out_of_range = b ! 18 AND 0x04 \<noteq> 0, o2_out_of_range = b ! 18 AND 0x08 \<noteq> 0,
           temp_out_of_range = b ! 18 AND 0x10 \<noteq> 0,
           pressure_out_of_range = b ! 18 AND 0x20 \<noteq> 0,
           zero_calibration_required = b ! 18 AND 0x40 \<noteq> 0 \<rparr> \<rparr>"
  by (cases x, cases "error x", cases "adapter x", cases "data_valid x")
    (simp add: parse_sensor_regs_ser_def)

lemma parse_config_data_lib_bytes:
  "length b = 21 \<Longrightarrow> parse_config_data_lib (drop 13 b) x =
     \<lparr> o2_fitted = b ! 13 AND 0x01 \<noteq> 0, co2_fitted = b ! 13 AND 0x02 \<noteq> 0,
       n2o_fitted = b ! 13 AND 0x04 \<noteq> 0, halothane_fitted = b ! 13 AND 0x08 \<noteq> 0,
       enflurane_fitted = b ! 13 AND 0x10 \<noteq> 0, isoflurane_fitted = b ! 13 AND 0x20 \<noteq> 0,
       sevoflurane_fitted = b ! 13 AND 0x40 \<noteq> 0, desflurane_fitted = b ! 13 AND 0x80 \<noteq> 0,
       hw_revision = parse_uint16_be [b ! 15, b ! 16],
       sw_revision = parse_uint16_be [b ! 17, b ! 18],
       id_config = False, comm_protocol_rev = 0 \<rparr>"
proof -
  assume len: "length b = 21"
  have "parse_uint16_be (drop 2 (drop 13 b)) = parse_uint16_be [b ! 15, b ! 16]"
    and "parse_uint16_be (drop 4 (drop 13 b)) = parse_uint16_be [b ! 17, b ! 18]"
    using len parse_uint16_be_drop [of 15 b] parse_uint16_be_drop [of 17 b] by simp_all
  with len show ?thesis
    by (cases x) (simp add: parse_config_data_lib_def Let_def del: drop_drop)
qed

lemma parse_config_data_ser_bytes:
  "length b = 21 \<Longrightarrow> parse_config_data_ser (drop 14 b) x =
     \<lparr> o2_fitted = b ! 14 AND 0x01 \<noteq> 0, co2_fitted = b ! 14 AND 0x02 \<noteq> 0,
       n2o_fitted = b ! 14 AND 0x04 \<noteq> 0, halothane_fitted = b ! 14 AND 0x08 \<noteq> 0,
       enflurane_fitted = b ! 14 AND 0x10 \<noteq> 0, isoflurane_fitted = b ! 14 AND 0x20 \<noteq> 0,
       sevoflurane_fitted = b ! 14 AND 0x40 \<noteq> 0, desflurane_fitted = b ! 14 AND 0x80 \<noteq> 0,
       hw_revision = ucast (b ! 15),
       sw_revision = parse_uint16_be [b ! 16, b ! 17],
       id_config = b ! 19 AND 0x01 \<noteq> 0,
       comm_protocol_rev = drop_bit 1 (b ! 19) AND 0x7F \<rparr>"
proof -
  assume len: "length b = 21"
  have "parse_uint16_be (drop 2 (drop 14 b)) = parse_uint16_be [b ! 16, b ! 17]"
    using len parse_uint16_be_drop [of 16 b] by simp
  with len show ?thesis
    by (cases x) (simp add: parse_config_data_ser_def del: drop_drop)
qed

lemma parse_service_data_bytes:
  "length b = 21 \<Longrightarrow> n = 13 \<or> n = 14 \<Longrightarrow> parse_service_data (drop n b) x =
     \<lparr> serial_number = parse_uint16_be [b ! n, b ! (n + 1)],
       service_status =
         \<lparr> zero_disabled = b ! (n + 2) AND 0x01 \<noteq> 0,
           zero_in_progress = b ! (n + 2) AND 0x02 \<noteq> 0,
           span_calibration_error = b ! (n + 2) AND 0x04 \<noteq> 0,
           span_calibration_in_progress = b ! (n + 2) AND 0x08 \<noteq> 0 \<rparr> \<rparr>"
  by (cases x, cases "service_status x")
    (auto simp: parse_service_data_def Let_def parse_uint16_be_drop)

lemmas slot_parsers_lib_bytes =
  parse_insp_vals_lib_bytes parse_exp_vals_lib_bytes parse_mom_vals_lib_bytes
  parse_gen_vals_lib_bytes parse_sensor_regs_lib_bytes parse_config_data_lib_bytes

lemmas slot_parsers_ser_bytes =
  parse_insp_vals_ser_bytes parse_exp_vals_ser_bytes parse_mom_vals_ser_bytes
  parse_gen_vals_ser_bytes parse_sensor_regs_ser_bytes parse_config_data_ser_bytes

lemma switch_lib_decoded:
  assumes "length b = 21"
  shows "slot_decoded_lib b (slow_data_switch_lib (b ! 2) (drop 13 b) sd)"
  unfolding slot_decoded_lib_def
  by (intro conjI impI)
    (simp_all add: slow_data_switch_lib_def slot_parsers_lib_bytes [OF assms]
      parse_service_data_bytes [OF assms, of 13] codecs_on_bytes)

lemma switch_ser_decoded:
  assumes "length b = 21" and "slow_data_switch_ser (b ! 2) (drop 14 b) sd = Some sd'"
  shows "slot_decoded_ser b sd'"
  unfolding slot_decoded_ser_def
  apply (insert assms(2))
  apply (intro conjI impI)
        apply (auto simp: slow_data_switch_ser_def slot_parsers_ser_bytes [OF assms(1)]
      parse_service_data_bytes [OF assms(1), of 14] codecs_on_bytes)
  done

text \<open>
  C3. For every frame of 21 bytes with valid sync bytes and checksum whose frame id \<open>k\<close>
  is at most 6, and every aggregate, \<^verbatim>\<open>gas_sensor_parse_frame\<close> of either implementation
  returns \<^verbatim>\<open>GAS_SENSOR_OK\<close>, sets \<^verbatim>\<open>last_frame_id\<close> to \<open>k\<close>, overwrites the slot of \<open>k\<close>
  with the decoded payload of the frame (whatever the slot held), and leaves every other
  slot as it was.
\<close>

theorem parse_frame_merges_one_slot:
  assumes "length b = 21" "b ! 0 = 0xAA" "b ! 1 = 0x55" "calculate_checksum b = b ! 20"
    and "b ! 2 \<le> 6"
  shows "(\<exists>sd'. gas_sensor_parse_frame_lib (Some b) (Some sd) w s =
            (GAS_SENSOR_OK, Some sd', parse_waveform_block_lib b w, parse_status_block (b ! 3) s) \<and>
          last_frame_id sd' = b ! 2 \<and> slot_decoded_lib b sd' \<and>
          other_slots_kept (b ! 2) sd sd') \<and>
         (\<exists>sd'. gas_sensor_parse_frame_ser (Some b) (Some sd) w s =
            (GAS_SENSOR_OK, Some sd', parse_waveform_block_ser b w, parse_status_block (b ! 3) s) \<and>
          last_frame_id sd' = b ! 2 \<and> slot_decoded_ser b sd' \<and>
          other_slots_kept (b ! 2) sd sd')"
proof -
  let ?sd1 = "sd\<lparr>last_frame_id := b ! 2\<rparr>"
  from \<open>b ! 2 \<le> 6\<close> have lt10: "\<not> b ! 2 \<ge> 10"
    by (simp add: word_le_nat_alt)
  have kept1: "other_slots_kept k ?sd1 sd' \<Longrightarrow> other_slots_kept k sd sd'" for k sd'
    by (simp add: other_slots_kept_def)
  have "gas_sensor_parse_frame_lib (Some b) (Some sd) w s =
      (GAS_SENSOR_OK, Some (slow_data_switch_lib (b ! 2) (drop 13 b) ?sd1),
       parse_waveform_block_lib b w, parse_status_block (b ! 3) s)"
    using assms(2-4) lt10 by (simp add: parse_frame_lib_valid)
  moreover have "last_frame_id (slow_data_switch_lib (b ! 2) (drop 13 b) ?sd1) = b ! 2"
    by (simp add: switch_lib_slots)
  moreover have "slot_decoded_lib b (slow_data_switch_lib (b ! 2) (drop 13 b) ?sd1)"
    by (rule switch_lib_decoded [OF assms(1)])
  moreover have "other_slots_kept (b ! 2) sd (slow_data_switch_lib (b ! 2) (drop 13 b) ?sd1)"
    by (rule kept1) (simp add: switch_lib_slots)
  ultimately have lib: "\<exists>sd'. gas_sensor_parse_frame_lib (Some b) (Some sd) w s =
            (GAS_SENSOR_OK, Some sd', parse_waveform_block_lib b w, parse_status_block (b ! 3) s) \<and>
          last_frame_id sd' = b ! 2 \<and> slot_decoded_lib b sd' \<and>
          other_slots_kept (b ! 2) sd sd'"
    by blast
  from lt10 obtain sd2 where sw: "slow_data_switch_ser (b ! 2) (drop 14 b) ?sd1 = Some sd2"
    using switch_ser_None [of "b ! 2" "drop 14 b" ?sd1]
    by (cases "slow_data_switch_ser (b ! 2) (drop 14 b) ?sd1") auto
  then have "gas_sensor_parse_frame_ser (Some b) (Some sd) w s =
      (GAS_SENSOR_OK, Some sd2, parse_waveform_block_ser b w, parse_status_block (b ! 3) s)"
    using assms(2-4) by (simp add: parse_frame_ser_valid)
  moreover from switch_ser_slots [OF sw] have "last_frame_id sd2 = b ! 2"
    and "other_slots_kept (b ! 2) sd sd2"
    by (simp_all add: kept1)
  moreover have "slot_decoded_ser b sd2"
    by (rule switch_ser_decoded [OF assms(1) sw])
  ultimately have ser: "\<exists>sd'. gas_sensor_parse_frame_ser (Some b) (Some sd) w s =
            (GAS_SENSOR_OK, Some sd', parse_waveform_block_ser b w, parse_status_block (b ! 3) s) \<and>
          last_frame_id sd' = b ! 2 \<and> slot_decoded_ser b sd' \<and>
          other_slots_kept (b ! 2) sd sd'"
    by blast
  from lib ser show ?thesis by (rule conjI)
qed

lemma example_frame_payload:
  "example_frame ! 13 = 0x40" "example_frame ! 14 = 0" "example_frame ! 15 = 0xFF"
  "example_frame ! 16 = 0x04" "example_frame ! 17 = 0" "example_frame ! 18 = 0x03"
  "example_frame ! 19 = 0xF5"
  by (simp_all add: example_frame_def)

theorem parse_frame_merges_one_slot_witness:
  "(\<exists>sd'. gas_sensor_parse_frame_lib (Some example_frame) (Some memset_zero_slow_data) None None =
            (GAS_SENSOR_OK, Some sd', None, None) \<and>
          last_frame_id sd' = 3 \<and>
          gen_vals sd' =
            \<lparr> resp_rate = 0x40, time_since_breath = 0, primary_agent = 255,
              secondary_agent = 4, atm_pressure = 3 / 100 \<rparr> \<and>
          insp_vals sd' = insp_vals memset_zero_slow_data \<and>
          exp_vals sd' = exp_vals memset_zero_slow_data \<and>
          mom_vals sd' = mom_vals memset_zero_slow_data \<and>
          sensor_regs sd' = sensor_regs memset_zero_slow_data \<and>
          config_data sd' = config_data memset_zero_slow_data \<and>
          service_data sd' = service_data memset_zero_slow_data) \<and>
   (\<exists>sd'. gas_sensor_parse_frame_ser (Some example_frame) (Some memset_zero_slow_data) None None =
            (GAS_SENSOR_OK, Some sd', None, None) \<and>
          last_frame_id sd' = 3 \<and>
          gen_vals sd' =
            \<lparr> resp_rate = 0, time_since_breath = 0xFF, primary_agent = 4,
              secondary_agent = 0, atm_pressure = 1013 / 10 \<rparr> \<and>
          insp_vals sd' = insp_vals memset_zero_slow_data \<and>
          exp_vals sd' = exp_vals memset_zero_slow_data \<and>
          mom_vals sd' = mom_vals memset_zero_slow_data \<and>
          sensor_regs sd' = sensor_regs memset_zero_slow_data \<and>
          config_data sd' = config_data memset_zero_slow_data \<and>
          service_data sd' = service_data memset_zero_slow_data)"
  using parse_frame_merges_one_slot [of example_frame memset_zero_slow_data None None]
  by (simp add: example_frame_facts other_slots_kept_def parse_waveform_block_lib_def
      parse_waveform_block_ser_def parse_status_block_def slot_decoded_lib_def
      slot_decoded_ser_def example_frame_payload word_of_bytes_def)

section \<open>Frame ids from 7 upwards\<close>

lemma bad_id_frame_facts:
  "length bad_id_frame = 21" "bad_id_frame ! 0 = 0xAA" "bad_id_frame ! 1 = 0x55"
  "bad_id_frame ! Suc 0 = 0x55" "bad_id_frame ! 2 = 0x0A" "bad_id_frame ! 3 = 0"
  "bad_id_frame ! 20 = 0xF6" "calculate_checksum bad_id_frame = 0xF6"
  by (simp_all add: bad_id_frame_def calculate_checksum_def upt_2_20)

lemma reserved_id_frame_facts:
  "length reserved_id_frame = 21" "reserved_id_frame ! 0 = 0xAA" "reserved_id_frame ! 1 = 0x55"
  "reserved_id_frame ! Suc 0 = 0x55" "reserved_id_frame ! 2 = 7" "reserved_id_frame ! 3 = 0"
  "reserved_id_frame ! 20 = 0xF9" "calculate_checksum reserved_id_frame = 0xF9"
  by (simp_all add: reserved_id_frame_def calculate_checksum_def upt_2_20)

text \<open>
  C5 (as amended). For every frame of 21 bytes with valid sync bytes and checksum whose
  frame id is 10 or more, and every combination of the \<^verbatim>\<open>waveform\<close> and \<^verbatim>\<open>status\<close>
  pointers, \<^verbatim>\<open>gas_sensor_parse_frame\<close> of either implementation returns
  \<^verbatim>\<open>GAS_SENSOR_ERR_INVALID_FRAME\<close> when \<^verbatim>\<open>slow_data\<close> is not \<^verbatim>\<open>NULL\<close>, and
  \<^verbatim>\<open>GAS_SENSOR_OK\<close> when it is \<^verbatim>\<open>NULL\<close>: the frame id is looked at only inside
  \<^verbatim>\<open>if (slow_data != NULL)\<close>.
\<close>

theorem parse_frame_invalid_id:
  assumes "length b = 21" "b ! 0 = 0xAA" "b ! 1 = 0x55" "calculate_checksum b = b ! 20"
    and "b ! 2 \<ge> 10"
  shows "fst (gas_sensor_parse_frame_lib (Some b) slow_data waveform status) =
           (if slow_data = None then GAS_SENSOR_OK else GAS_SENSOR_ERR_INVALID_FRAME) \<and>
         fst (gas_sensor_parse_frame_ser (Some b) slow_data waveform status) =
           (if slow_data = None then GAS_SENSOR_OK else GAS_SENSOR_ERR_INVALID_FRAME)"
proof (cases slow_data)
  case None
  with assms(2-4) show ?thesis
    by (simp add: parse_frame_lib_valid parse_frame_ser_valid)
next
  case (Some sd)
  from assms(5) have "slow_data_switch_ser (b ! 2) (drop 14 b) (sd\<lparr>last_frame_id := b ! 2\<rparr>) = None"
    by (simp add: switch_ser_None)
  with Some assms(2-5) show ?thesis
    by (simp add: parse_frame_lib_valid parse_frame_ser_valid)
qed

theorem parse_frame_invalid_id_witness:
  "fst (gas_sensor_parse_frame_lib (Some bad_id_frame) (Some memset_zero_slow_data) None None) =
     GAS_SENSOR_ERR_INVALID_FRAME \<and>
   fst (gas_sensor_parse_frame_ser (Some bad_id_frame) (Some memset_zero_slow_data) None None) =
     GAS_SENSOR_ERR_INVALID_FRAME"
  using parse_frame_invalid_id [of bad_id_frame "Some memset_zero_slow_data" None None]
  by (simp add: bad_id_frame_facts)

text \<open>
  The claim as stated fails when \<^verbatim>\<open>slow_data\<close> is \<^verbatim>\<open>NULL\<close>: the frame with id 10 is accepted.
\<close>

theorem parse_frame_invalid_id_counterexample:
  "length bad_id_frame = 21 \<and> bad_id_frame ! 0 = 0xAA \<and> bad_id_frame ! 1 = 0x55 \<and>
   calculate_checksum bad_id_frame = bad_id_frame ! 20 \<and> bad_id_frame ! 2 \<ge> 10 \<and>
   gas_sensor_parse_frame_lib (Some bad_id_frame) None None None =
     (GAS_SENSOR_OK, None, None, None) \<and>
   gas_sensor_parse_frame_ser (Some bad_id_frame) None None None =
     (GAS_SENSOR_OK, None, None, None) \<and>
   GAS_SENSOR_OK \<noteq> GAS_SENSOR_ERR_INVALID_FRAME"
  by (simp add: bad_id_frame_facts parse_frame_lib_valid parse_frame_ser_valid
      parse_waveform_block_lib_def parse_waveform_block_ser_def parse_status_block_def
      gas_sensor_codes)

lemma reserved_lt10: "(k :: u8) = 7 \<or> k = 8 \<or> k = 9 \<Longrightarrow> \<not> k \<ge> 10"
  by (elim disjE) simp_all

lemma switch_lib_reserved:
  "k = 7 \<or> k = 8 \<or> k = 9 \<Longrightarrow> slow_data_switch_lib k bs sd = sd"
  by (elim disjE) (simp_all add: slow_data_switch_lib_def)

lemma switch_ser_reserved:
  "k = 7 \<or> k = 8 \<or> k = 9 \<Longrightarrow> slow_data_switch_ser k bs sd = Some sd"
  by (elim disjE) (simp_all add: slow_data_switch_ser_def)

text \<open>
  C6 (as amended). For every frame of 21 bytes with valid sync bytes and checksum whose
  frame id is 7, 8 or 9, \<^verbatim>\<open>gas_sensor_parse_frame\<close> of either implementation returns
  \<^verbatim>\<open>GAS_SENSOR_OK\<close> and leaves the seven slots of the aggregate as they were, and
  \<^verbatim>\<open>last_frame_id\<close> becomes the frame id.
\<close>

theorem parse_frame_reserved_id:
  assumes "length b = 21" "b ! 0 = 0xAA" "b ! 1 = 0x55" "calculate_checksum b = b ! 20"
    and "b ! 2 = 7 \<or> b ! 2 = 8 \<or> b ! 2 = 9"
  shows "gas_sensor_parse_frame_lib (Some b) (Some sd) waveform status =
           (GAS_SENSOR_OK, Some (sd\<lparr>last_frame_id := b ! 2\<rparr>),
            parse_waveform_block_lib b waveform, parse_status_block (b ! 3) status) \<and>
         gas_sensor_parse_frame_ser (Some b) (Some sd) waveform status =
           (GAS_SENSOR_OK, Some (sd\<lparr>last_frame_id := b ! 2\<rparr>),
            parse_waveform_block_ser b waveform, parse_status_block (b ! 3) status)"
proof -
  note lt = reserved_lt10 [OF assms(5)]
  note l = switch_lib_reserved [OF assms(5)]
  note s = switch_ser_reserved [OF assms(5)]
  have "gas_sensor_parse_frame_lib (Some b) (Some sd) waveform status =
           (GAS_SENSOR_OK, Some (sd\<lparr>last_frame_id := b ! 2\<rparr>),
            parse_waveform_block_lib b waveform, parse_status_block (b ! 3) status)"
    by (simp only: parse_frame_lib_valid [OF assms(2-4)] option.case lt if_False l)
  moreover have "gas_sensor_parse_frame_ser (Some b) (Some sd) waveform status =
           (GAS_SENSOR_OK, Some (sd\<lparr>last_frame_id := b ! 2\<rparr>),
            parse_waveform_block_ser b waveform, parse_status_block (b ! 3) status)"
    by (simp only: parse_frame_ser_valid [OF assms(2-4)] option.case s)
  ultimately show ?thesis by (rule conjI)
qed
theorem parse_frame_reserved_id_witness:
  "gas_sensor_parse_frame_lib (Some reserved_id_frame) (Some memset_zero_slow_data) None None =
     (GAS_SENSOR_OK, Some (memset_zero_slow_data\<lparr>last_frame_id := 7\<rparr>), None, None) \<and>
   gas_sensor_parse_frame_ser (Some reserved_id_frame) (Some memset_zero_slow_data) None None =
     (GAS_SENSOR_OK, Some (memset_zero_slow_data\<lparr>last_frame_id := 7\<rparr>), None, None)"
  using parse_frame_reserved_id [of reserved_id_frame memset_zero_slow_data None None]
  by (simp add: reserved_id_frame_facts parse_waveform_block_lib_def
      parse_waveform_block_ser_def parse_status_block_def)

text \<open>
  The claim as stated fails on \<^verbatim>\<open>last_frame_id\<close>: after the frame with id 7 the
  aggregate, which held 0 there, is not the one before the call.
\<close>

theorem parse_frame_reserved_id_counterexample:
  "length reserved_id_frame = 21 \<and> reserved_id_frame ! 0 = 0xAA \<and>
   reserved_id_frame ! 1 = 0x55 \<and>
   calculate_checksum reserved_id_frame = reserved_id_frame ! 20 \<and>
   reserved_id_frame ! 2 = 7 \<and>
   fst (snd (gas_sensor_parse_frame_lib (Some reserved_id_frame) (Some memset_zero_slow_data)
     None None)) \<noteq> Some memset_zero_slow_data \<and>
   fst (snd (gas_sensor_parse_frame_ser (Some reserved_id_frame) (Some memset_zero_slow_data)
     None None)) \<noteq> Some memset_zero_slow_data"
proof -
  have "memset_zero_slow_data\<lparr>last_frame_id := 7\<rparr> \<noteq> memset_zero_slow_data"
  proof
    assume "memset_zero_slow_data\<lparr>last_frame_id := 7\<rparr> = memset_zero_slow_data"
    then have "last_frame_id (memset_zero_slow_data\<lparr>last_frame_id := 7\<rparr>) =
        last_frame_id memset_zero_slow_data"
      by (rule arg_cong)
    then show False by (simp add: memset_zero_slow_data_def)
  qed
  then show ?thesis
    by (simp add: reserved_id_frame_facts parse_frame_lib_valid parse_frame_ser_valid
        slow_data_switch_lib_def slow_data_switch_ser_def)
qed

section \<open>The example frame\<close>

lemma example_frame_waveform:
  "parse_uint16_be (drop 4 example_frame) = 0" "parse_uint16_be (drop 6 example_frame) = 0"
  "parse_uint16_be (drop 8 example_frame) = 0" "parse_uint16_be (drop 10 example_frame) = 0"
  "parse_uint16_be (drop 12 example_frame) = 0x0640"
  by (simp_all add: example_frame_def parse_uint16_be_def)

lemma example_frame_waveform_lib:
  "parse_waveform_block_lib example_frame (Some w) =
     Some \<lparr> wave_co2 = 0, wave_n2o = 0, wave_aa1 = 0, wave_aa2 = 0, wave_o2 = 16 \<rparr>"
  by (simp add: parse_waveform_block_lib_def example_frame_waveform parse_concentration_2byte_def)

lemma example_frame_waveform_ser:
  "parse_waveform_block_ser example_frame (Some w) =
     Some \<lparr> wave_co2 = 0, wave_n2o = 0, wave_aa1 = 0, wave_aa2 = 0, wave_o2 = 16 \<rparr>"
  by (simp add: parse_waveform_block_ser_def example_frame_waveform)

text \<open>
  C8 (as amended). The frame \<^verbatim>\<open>AA 55 03 00 00 00 00 00 00 00 00 00 06 40 00 FF 04 00 03 F5 BC\<close>
  passes checksum verification in both implementations (byte 20, \<^verbatim>\<open>0xBC\<close>, is the
  checksum of the specification), and \<^verbatim>\<open>gas_sensor_parse_frame\<close> of either
  implementation succeeds on it with frame id 3 and with the CO2, N2O, AA1 and AA2
  concentrations equal to zero and the O2 concentration equal to 16.00: bytes 12 and
  13 are \<^verbatim>\<open>06 40\<close>, the word 1600.
\<close>

theorem example_frame_decodes:
  "gas_sensor_verify_checksum_lib (Some example_frame) \<and>
   gas_sensor_verify_checksum_ser (Some example_frame) \<and>
   example_frame ! 20 = 0xBC \<and> checksum_spec example_frame = 0xBC \<and>
   (\<exists>sd'. gas_sensor_parse_frame_lib (Some example_frame) (Some sd) (Some w) status =
      (GAS_SENSOR_OK, Some sd',
       Some \<lparr> wave_co2 = 0, wave_n2o = 0, wave_aa1 = 0, wave_aa2 = 0, wave_o2 = 16 \<rparr>,
       parse_status_block 0 status) \<and> last_frame_id sd' = 3) \<and>
   (\<exists>sd'. gas_sensor_parse_frame_ser (Some example_frame) (Some sd) (Some w) status =
      (GAS_SENSOR_OK, Some sd',
       Some \<lparr> wave_co2 = 0, wave_n2o = 0, wave_aa1 = 0, wave_aa2 = 0, wave_o2 = 16 \<rparr>,
       parse_status_block 0 status) \<and> last_frame_id sd' = 3)"
proof -
  have v: "example_frame ! 0 = 0xAA" "example_frame ! 1 = 0x55"
    "calculate_checksum example_frame = example_frame ! 20"
    by (simp_all add: example_frame_facts)
  have le: "example_frame ! 2 \<le> 6" by (simp add: example_frame_facts)
  from parse_frame_lib_valid [OF v, of "Some sd" "Some w" status]
  have "gas_sensor_parse_frame_lib (Some example_frame) (Some sd) (Some w) status =
      (GAS_SENSOR_OK, Some (slow_data_switch_lib 3 (drop 13 example_frame) (sd\<lparr>last_frame_id := 3\<rparr>)),
       Some \<lparr> wave_co2 = 0, wave_n2o = 0, wave_aa1 = 0, wave_aa2 = 0, wave_o2 = 16 \<rparr>,
       parse_status_block 0 status)"
    by (simp add: example_frame_facts example_frame_waveform_lib)
  moreover have "last_frame_id (slow_data_switch_lib 3 (drop 13 example_frame) (sd\<lparr>last_frame_id := 3\<rparr>)) = 3"
    by (simp add: switch_lib_slots)
  moreover from parse_frame_ser_valid [OF v, of "Some sd" "Some w" status]
  have "gas_sensor_parse_frame_ser (Some example_frame) (Some sd) (Some w) status =
      (GAS_SENSOR_OK, Some ((sd\<lparr>last_frame_id := 3\<rparr>)
         \<lparr>gen_vals := parse_gen_vals_ser (drop 14 example_frame) (gen_vals sd)\<rparr>),
       Some \<lparr> wave_co2 = 0, wave_n2o = 0, wave_aa1 = 0, wave_aa2 = 0, wave_o2 = 16 \<rparr>,
       parse_status_block 0 status)"
    by (simp add: example_frame_facts example_frame_waveform_ser slow_data_switch_ser_def)
  ultimately show ?thesis
    by (simp add: gas_sensor_verify_checksum_lib_def gas_sensor_verify_checksum_ser_def
        example_frame_facts gas_sensor_consts calculate_checksum_spec [symmetric])
qed

theorem example_frame_decodes_witness:
  "fst (gas_sensor_parse_frame_lib (Some example_frame) (Some memset_zero_slow_data)
     (Some \<lparr> wave_co2 = 0, wave_n2o = 0, wave_aa1 = 0, wave_aa2 = 0, wave_o2 = 0 \<rparr>) None) =
     GAS_SENSOR_OK \<and>
   fst (gas_sensor_parse_frame_ser (Some example_frame) (Some memset_zero_slow_data)
     (Some \<lparr> wave_co2 = 0, wave_n2o = 0, wave_aa1 = 0, wave_aa2 = 0, wave_o2 = 0 \<rparr>) None) =
     GAS_SENSOR_OK"
  using example_frame_decodes [of memset_zero_slow_data
      "\<lparr> wave_co2 = 0, wave_n2o = 0, wave_aa1 = 0, wave_aa2 = 0, wave_o2 = 0 \<rparr>" None]
  by auto

text \<open>
  The claim as stated fails on the fifth concentration: O2 is decoded as 16, not 0.
\<close>

theorem example_frame_waveform_counterexample:
  "gas_sensor_parse_frame_lib (Some example_frame) None
     (Some \<lparr> wave_co2 = 0, wave_n2o = 0, wave_aa1 = 0, wave_aa2 = 0, wave_o2 = 0 \<rparr>) None =
     (GAS_SENSOR_OK, None,
      Some \<lparr> wave_co2 = 0, wave_n2o = 0, wave_aa1 = 0, wave_aa2 = 0, wave_o2 = 16 \<rparr>, None) \<and>
   gas_sensor_parse_frame_ser (Some example_frame) None
     (Some \<lparr> wave_co2 = 0, wave_n2o = 0, wave_aa1 = 0, wave_aa2 = 0, wave_o2 = 0 \<rparr>) None =
     (GAS_SENSOR_OK, None,
      Some \<lparr> wave_co2 = 0, wave_n2o = 0, wave_aa1 = 0, wave_aa2 = 0, wave_o2 = 16 \<rparr>, None) \<and>
   (16 :: cfloat) \<noteq> 0"
  by (simp add: parse_frame_lib_valid parse_frame_ser_valid example_frame_facts
      example_frame_waveform_lib example_frame_waveform_ser parse_status_block_def)

section \<open>Early returns of the frame decoder\<close>

lemma parse_frame_lib_error_paths:
  "gas_sensor_parse_frame_lib None sd w s = (GAS_SENSOR_ERR_NULL_PARAM, sd, w, s)"
  "b ! 0 \<noteq> 0xAA \<or> b ! 1 \<noteq> 0x55 \<Longrightarrow>
     gas_sensor_parse_frame_lib (Some b) sd w s = (GAS_SENSOR_ERR_INVALID_FRAME, sd, w, s)"
  "b ! 0 = 0xAA \<Longrightarrow> b ! 1 = 0x55 \<Longrightarrow> calculate_checksum b \<noteq> b ! 20 \<Longrightarrow>
     gas_sensor_parse_frame_lib (Some b) sd w s = (GAS_SENSOR_ERR_CHECKSUM, sd, w, s)"
  by (simp_all add: gas_sensor_parse_frame_lib_def gas_sensor_verify_checksum_lib_def
      gas_sensor_consts)

lemma parse_frame_ser_error_paths:
  "gas_sensor_parse_frame_ser None sd w s = (GAS_SENSOR_ERR_NULL_PARAM, sd, w, s)"
  "b ! 0 \<noteq> 0xAA \<or> b ! 1 \<noteq> 0x55 \<Longrightarrow>
     gas_sensor_parse_frame_ser (Some b) sd w s = (GAS_SENSOR_ERR_INVALID_FRAME, sd, w, s)"
  "b ! 0 = 0xAA \<Longrightarrow> b ! 1 = 0x55 \<Longrightarrow> calculate_checksum b \<noteq> b ! 20 \<Longrightarrow>
     gas_sensor_parse_frame_ser (Some b) sd w s = (GAS_SENSOR_ERR_CHECKSUM, sd, w, s)"
  by (simp_all add: gas_sensor_parse_frame_ser_def gas_sensor_verify_checksum_ser_def
      gas_sensor_consts eq_commute [of "b ! 20"])

lemma parse_frame_lib_valid_codes:
  assumes "b ! 0 = 0xAA" "b ! 1 = 0x55" "calculate_checksum b = b ! 20"
  shows "fst (gas_sensor_parse_frame_lib (Some b) sd w s) = GAS_SENSOR_OK \<or>
         fst (gas_sensor_parse_frame_lib (Some b) sd w s) = GAS_SENSOR_ERR_INVALID_FRAME"
  by (simp add: parse_frame_lib_valid [OF assms] split: option.splits)

lemma parse_frame_ser_valid_codes:
  assumes "b ! 0 = 0xAA" "b ! 1 = 0x55" "calculate_checksum b = b ! 20"
  shows "fst (gas_sensor_parse_frame_ser (Some b) sd w s) = GAS_SENSOR_OK \<or>
         fst (gas_sensor_parse_frame_ser (Some b) sd w s) = GAS_SENSOR_ERR_INVALID_FRAME"
  by (simp add: parse_frame_ser_valid [OF assms] split: option.splits)

lemma parse_frame_lib_early:
  assumes "r = gas_sensor_parse_frame_lib fo sd w s"
    and "fst r = GAS_SENSOR_ERR_NULL_PARAM \<or> fst r = GAS_SENSOR_ERR_CHECKSUM \<or> sync_invalid fo"
  shows "snd r = (sd, w, s)"
proof (cases fo)
  case None
  with assms(1) show ?thesis by (simp add: parse_frame_lib_error_paths)
next
  case (Some b)
  show ?thesis
  proof (cases "b ! 0 \<noteq> 0xAA \<or> b ! 1 \<noteq> 0x55")
    case True
    with Some assms(1) show ?thesis by (simp add: parse_frame_lib_error_paths(2))
  next
    case sync: False
    show ?thesis
    proof (cases "calculate_checksum b = b ! 20")
      case False
      with sync Some assms(1) show ?thesis by (simp add: parse_frame_lib_error_paths(3))
    next
      case True
      with sync parse_frame_lib_valid_codes [of b sd w s]
      have "fst r = GAS_SENSOR_OK \<or> fst r = GAS_SENSOR_ERR_INVALID_FRAME"
        using Some assms(1) by simp
      with assms(2) sync Some show ?thesis
        by (auto simp: gas_sensor_codes sync_invalid_def)
    qed
  qed
qed

lemma parse_frame_ser_early:
  assumes "r = gas_sensor_parse_frame_ser fo sd w s"
    and "fst r = GAS_SENSOR_ERR_NULL_PARAM \<or> fst r = GAS_SENSOR_ERR_CHECKSUM \<or> sync_invalid fo"
  shows "snd r = (sd, w, s)"
proof (cases fo)
  case None
  with assms(1) show ?thesis by (simp add: parse_frame_ser_error_paths)
next
  case (Some b)
  show ?thesis
  proof (cases "b ! 0 \<noteq> 0xAA \<or> b ! 1 \<noteq> 0x55")
    case True
    with Some assms(1) show ?thesis by (simp add: parse_frame_ser_error_paths(2))
  next
    case sync: False
    show ?thesis
    proof (cases "calculate_checksum b = b ! 20")
      case False
      with sync Some assms(1) show ?thesis by (simp add: parse_frame_ser_error_paths(3))
    next
      case True
      with sync parse_frame_ser_valid_codes [of b sd w s]
      have "fst r = GAS_SENSOR_OK \<or> fst r = GAS_SENSOR_ERR_INVALID_FRAME"
        using Some assms(1) by simp
      with assms(2) sync Some show ?thesis
        by (auto simp: gas_sensor_codes sync_invalid_def)
    qed
  qed
qed

text \<open>
  C9. For a frame pointer that is \<^verbatim>\<open>NULL\<close> or points to 21 bytes: whenever
  \<^verbatim>\<open>gas_sensor_parse_frame\<close> of either implementation returns
  \<^verbatim>\<open>GAS_SENSOR_ERR_NULL_PARAM\<close> or \<^verbatim>\<open>GAS_SENSOR_ERR_CHECKSUM\<close>, or the frame does not start
  with the sync bytes (the return is then \<^verbatim>\<open>GAS_SENSOR_ERR_INVALID_FRAME\<close>), the contents
  behind \<^verbatim>\<open>slow_data\<close>, \<^verbatim>\<open>waveform\<close> and \<^verbatim>\<open>status\<close> are those before the call.
\<close>

theorem parse_frame_errors_write_nothing:
  assumes "frame_21 frame_data"
  shows "(fst (gas_sensor_parse_frame_lib frame_data sd w s) = GAS_SENSOR_ERR_NULL_PARAM \<or>
          fst (gas_sensor_parse_frame_lib frame_data sd w s) = GAS_SENSOR_ERR_CHECKSUM \<longrightarrow>
          snd (gas_sensor_parse_frame_lib frame_data sd w s) = (sd, w, s)) \<and>
         (sync_invalid frame_data \<longrightarrow>
          gas_sensor_parse_frame_lib frame_data sd w s =
            (GAS_SENSOR_ERR_INVALID_FRAME, sd, w, s)) \<and>
         (fst (gas_sensor_parse_frame_ser frame_data sd w s) = GAS_SENSOR_ERR_NULL_PARAM \<or>
          fst (gas_sensor_parse_frame_ser frame_data sd w s) = GAS_SENSOR_ERR_CHECKSUM \<longrightarrow>
          snd (gas_sensor_parse_frame_ser frame_data sd w s) = (sd, w, s)) \<and>
         (sync_invalid frame_data \<longrightarrow>
          gas_sensor_parse_frame_ser frame_data sd w s =
            (GAS_SENSOR_ERR_INVALID_FRAME, sd, w, s))"
proof -
  have sync: "gas_sensor_parse_frame_lib frame_data sd w s =
        (GAS_SENSOR_ERR_INVALID_FRAME, sd, w, s) \<and>
      gas_sensor_parse_frame_ser frame_data sd w s =
        (GAS_SENSOR_ERR_INVALID_FRAME, sd, w, s)" if "sync_invalid frame_data"
  proof (cases frame_data)
    case None
    with that show ?thesis by (simp add: sync_invalid_def)
  next
    case (Some b)
    with that have "b ! 0 \<noteq> 0xAA \<or> b ! 1 \<noteq> 0x55" by (simp add: sync_invalid_def)
    with Some show ?thesis
      by (simp only: parse_frame_lib_error_paths(2) parse_frame_ser_error_paths(2))
  qed
  with parse_frame_lib_early [OF refl, of frame_data sd w s]
    parse_frame_ser_early [OF refl, of frame_data sd w s]
  show ?thesis by blast
qed

theorem parse_frame_errors_write_nothing_witness:
  "frame_21 (Some (replicate 21 0)) \<and> sync_invalid (Some (replicate 21 0)) \<and>
   gas_sensor_parse_frame_lib (Some (replicate 21 0)) (Some memset_zero_slow_data) None None =
     (GAS_SENSOR_ERR_INVALID_FRAME, Some memset_zero_slow_data, None, None) \<and>
   gas_sensor_parse_frame_ser (Some (replicate 21 0)) (Some memset_zero_slow_data) None None =
     (GAS_SENSOR_ERR_INVALID_FRAME, Some memset_zero_slow_data, None, None)"
  using parse_frame_errors_write_nothing
      [of "Some (replicate 21 0)" "Some memset_zero_slow_data" None None]
  by (simp add: frame_21_def sync_invalid_def)

section \<open>Waveform decoding\<close>

lemma no_data_wave_frame_facts:
  "length no_data_wave_frame = 21" "no_data_wave_frame ! 0 = 0xAA" "no_data_wave_frame ! 1 = 0x55"
  "no_data_wave_frame ! Suc 0 = 0x55" "no_data_wave_frame ! 2 = 0" "no_data_wave_frame ! 3 = 0"
  "no_data_wave_frame ! 20 = 0x02" "calculate_checksum no_data_wave_frame = 0x02"
  by (simp_all add: no_data_wave_frame_def calculate_checksum_def upt_2_20)

lemma waveform_of_parse_frame_lib:
  assumes "b ! 0 = 0xAA" "b ! 1 = 0x55" "calculate_checksum b = b ! 20"
  shows "fst (snd (snd (gas_sensor_parse_frame_lib (Some b) slow_data waveform status))) =
     parse_waveform_block_lib b waveform"
  by (simp add: parse_frame_lib_valid [OF assms] split: option.splits)

lemma waveform_of_parse_frame_ser:
  assumes "b ! 0 = 0xAA" "b ! 1 = 0x55" "calculate_checksum b = b ! 20"
  shows "fst (snd (snd (gas_sensor_parse_frame_ser (Some b) slow_data waveform status))) =
     parse_waveform_block_ser b waveform"
  by (simp add: parse_frame_ser_valid [OF assms] split: option.splits)

lemma waveform_decode_lib:
  assumes "length b = 21" "b ! 0 = 0xAA" "b ! 1 = 0x55" "calculate_checksum b = b ! 20"
  shows "fst (snd (snd (gas_sensor_parse_frame_lib (Some b) slow_data (Some w) status))) =
     Some \<lparr> wave_co2 = parse_concentration_2byte (parse_uint16_be (drop 4 b)),
            wave_n2o = parse_concentration_2byte (parse_uint16_be (drop 6 b)),
            wave_aa1 = parse_concentration_2byte (parse_uint16_be (drop 8 b)),
            wave_aa2 = parse_concentration_2byte (parse_uint16_be (drop 10 b)),
            wave_o2 = parse_concentration_2byte (parse_uint16_be (drop 12 b)) \<rparr>"
  by (simp add: waveform_of_parse_frame_lib [OF assms(2-4)] parse_waveform_block_lib_def)

lemma parse_concentration_2byte_cases:
  "parse_concentration_2byte 0xFFFF = GAS_SENSOR_CONC_INVALID"
  "raw \<noteq> 0xFFFF \<Longrightarrow> parse_concentration_2byte raw = of_nat (unat raw) / 100"
  by (simp_all add: parse_concentration_2byte_def)

text \<open>
  C4. The parsing library decodes the waveform as the claim says (lemmas
  \<open>waveform_decode_lib\<close> and \<open>parse_concentration_2byte_cases\<close>). The serial
  implementation does not: for every frame of 21 bytes with valid sync bytes and
  checksum, each of the five concentrations is the big-endian word divided by 100, also
  when the word is \<^verbatim>\<open>0xFFFF\<close>, which gives 655.35 and not \<^verbatim>\<open>GAS_SENSOR_CONC_INVALID\<close>.
\<close>

theorem waveform_decode_ser_no_sentinel:
  assumes "length b = 21" "b ! 0 = 0xAA" "b ! 1 = 0x55" "calculate_checksum b = b ! 20"
  shows "fst (snd (snd (gas_sensor_parse_frame_ser (Some b) slow_data (Some w) status))) =
     Some \<lparr> wave_co2 = of_nat (unat (parse_uint16_be (drop 4 b))) / 100,
            wave_n2o = of_nat (unat (parse_uint16_be (drop 6 b))) / 100,
            wave_aa1 = of_nat (unat (parse_uint16_be (drop 8 b))) / 100,
            wave_aa2 = of_nat (unat (parse_uint16_be (drop 10 b))) / 100,
            wave_o2 = of_nat (unat (parse_uint16_be (drop 12 b))) / 100 \<rparr>"
  by (simp add: waveform_of_parse_frame_ser [OF assms(2-4)] parse_waveform_block_ser_def)

theorem waveform_decode_ser_no_sentinel_witness:
  "parse_uint16_be (drop 4 no_data_wave_frame) = 0xFFFF \<and>
   fst (snd (snd (gas_sensor_parse_frame_ser (Some no_data_wave_frame) None
     (Some \<lparr> wave_co2 = 0, wave_n2o = 0, wave_aa1 = 0, wave_aa2 = 0, wave_o2 = 0 \<rparr>) None))) =
     Some \<lparr> wave_co2 = 13107 / 20, wave_n2o = 0, wave_aa1 = 0, wave_aa2 = 0, wave_o2 = 0 \<rparr> \<and>
   (13107 / 20 :: cfloat) \<noteq> GAS_SENSOR_CONC_INVALID"
  using waveform_decode_ser_no_sentinel [of no_data_wave_frame None
      "\<lparr> wave_co2 = 0, wave_n2o = 0, wave_aa1 = 0, wave_aa2 = 0, wave_o2 = 0 \<rparr>" None]
  by (simp add: no_data_wave_frame_facts)
    (simp add: no_data_wave_frame_def parse_uint16_be_def GAS_SENSOR_CONC_INVALID_def)

section \<open>Initialising the aggregate\<close>

lemma init_slow_data_ser_sentinels:
  "\<exists>sd'. gas_sensor_init_slow_data_ser (Some sd) = Some sd' \<and>
     last_frame_id sd' = 0xFF \<and>
     insp_vals sd' = \<lparr> insp_co2 = GAS_SENSOR_CONC_INVALID, insp_n2o = GAS_SENSOR_CONC_INVALID,
       insp_aa1 = GAS_SENSOR_CONC_INVALID, insp_aa2 = GAS_SENSOR_CONC_INVALID,
       insp_o2 = GAS_SENSOR_CONC_INVALID \<rparr> \<and>
     exp_vals sd' = \<lparr> exp_co2 = GAS_SENSOR_CONC_INVALID, exp_n2o = GAS_SENSOR_CONC_INVALID,
       exp_aa1 = GAS_SENSOR_CONC_INVALID, exp_aa2 = GAS_SENSOR_CONC_INVALID,
       exp_o2 = GAS_SENSOR_CONC_INVALID \<rparr> \<and>
     mom_vals sd' = \<lparr> mom_co2 = GAS_SENSOR_CONC_INVALID, mom_n2o = GAS_SENSOR_CONC_INVALID,
       mom_aa1 = GAS_SENSOR_CONC_INVALID, mom_aa2 = GAS_SENSOR_CONC_INVALID,
       mom_o2 = GAS_SENSOR_CONC_INVALID \<rparr> \<and>
     resp_rate (gen_vals sd') = 0xFF \<and> time_since_breath (gen_vals sd') = 0xFF \<and>
     atm_pressure (gen_vals sd') = GAS_SENSOR_CONC_INVALID"
  by (simp add: gas_sensor_init_slow_data_ser_def memset_zero_slow_data_def
      GAS_SENSOR_NO_DATA_def)

text \<open>
  C7. The serial implementation initialises the aggregate as the claim says (lemma
  \<open>init_slow_data_ser_sentinels\<close>). The parsing library does not: after its
  \<^verbatim>\<open>gas_sensor_init_slow_data\<close>, \<^verbatim>\<open>last_frame_id\<close>, \<^verbatim>\<open>resp_rate\<close> and
  \<^verbatim>\<open>time_since_breath\<close> are 0, the value \<^verbatim>\<open>memset\<close> gave them, and not \<^verbatim>\<open>0xFF\<close>.
\<close>

theorem init_slow_data_lib_leaves_zero:
  "\<exists>sd'. gas_sensor_init_slow_data_lib (Some sd) = Some sd' \<and>
     last_frame_id sd' = 0 \<and> resp_rate (gen_vals sd') = 0 \<and>
     time_since_breath (gen_vals sd') = 0 \<and>
     last_frame_id sd' \<noteq> 0xFF \<and> resp_rate (gen_vals sd') \<noteq> 0xFF \<and>
     time_since_breath (gen_vals sd') \<noteq> 0xFF"
  by (simp add: gas_sensor_init_slow_data_lib_def memset_zero_slow_data_def)

theorem init_slow_data_lib_leaves_zero_witness:
  "\<exists>sd'. gas_sensor_init_slow_data_lib (Some memset_zero_slow_data) = Some sd' \<and>
     last_frame_id sd' = 0 \<and> resp_rate (gen_vals sd') = 0 \<and>
     time_since_breath (gen_vals sd') = 0"
  using init_slow_data_lib_leaves_zero [of memset_zero_slow_data] by blast

section \<open>The stream synchroniser\<close>

lemma find_frame_start_range:
  "0 \<le> i \<Longrightarrow> find_frame_start buf len i = - 1 \<or>
     (i \<le> find_frame_start buf len i \<and> find_frame_start buf len i < len - 1)"
proof (induction buf len i rule: find_frame_start.induct)
  case (1 buf len i)
  show ?case
  proof (cases "i < len - 1")
    case False
    then show ?thesis by (simp add: find_frame_start.simps [of buf len i])
  next
    case True
    show ?thesis
    proof (cases "buf ! nat i = GAS_SENSOR_FLAG1 \<and> buf ! nat (i + 1) = GAS_SENSOR_FLAG2")
      case found: True
      with True show ?thesis by (simp add: find_frame_start.simps [of buf len i])
    next
      case nf: False
      with True "1.prems" "1.IH" have "find_frame_start buf len (i + 1) = - 1 \<or>
          (i + 1 \<le> find_frame_start buf len (i + 1) \<and> find_frame_start buf len (i + 1) < len - 1)"
        by simp
      moreover from True nf have "find_frame_start buf len i = find_frame_start buf len (i + 1)"
        by (subst find_frame_start.simps) auto
      ultimately show ?thesis by auto
    qed
  qed
qed

lemma find_frame_start_found:
  "0 \<le> i \<Longrightarrow> find_frame_start buf len i \<noteq> - 1 \<Longrightarrow>
     buf ! nat (find_frame_start buf len i) = GAS_SENSOR_FLAG1 \<and>
     buf ! nat (find_frame_start buf len i + 1) = GAS_SENSOR_FLAG2"
proof (induction buf len i rule: find_frame_start.induct)
  case (1 buf len i)
  show ?case
  proof (cases "i < len - 1")
    case False
    with "1.prems" show ?thesis by (simp add: find_frame_start.simps [of buf len i])
  next
    case True
    show ?thesis
    proof (cases "buf ! nat i = GAS_SENSOR_FLAG1 \<and> buf ! nat (i + 1) = GAS_SENSOR_FLAG2")
      case found: True
      with True show ?thesis by (simp add: find_frame_start.simps [of buf len i])
    next
      case nf: False
      from True nf have eq: "find_frame_start buf len i = find_frame_start buf len (i + 1)"
        by (subst find_frame_start.simps) auto
      with True nf "1.prems" "1.IH" show ?thesis by simp
    qed
  qed
qed

lemma find_frame_start_aligned:
  "buf ! 0 = GAS_SENSOR_FLAG1 \<Longrightarrow> buf ! 1 = GAS_SENSOR_FLAG2 \<Longrightarrow> 2 \<le> len \<Longrightarrow>
   find_frame_start buf len 0 = 0"
  by (simp add: find_frame_start.simps [of buf len 0])

lemma rx_append_ok:
  assumes "rx_buffer_ok h" "length tb \<le> 128"
  shows "rx_buffer_ok (rx_append h tb)"
    and "rx_buffer_len (rx_append h tb) \<le> rx_buffer_len h + 128"
    and "rx_buffer_len (rx_append h tb) =
       (if rx_buffer_len h + int (length tb) > 256 then 0 else rx_buffer_len h) + int (length tb)"
  using assms
  by (auto simp: rx_buffer_ok_def rx_append_def memcpy_at_def Let_def)

lemma rx_discard_ok:
  assumes "rx_buffer_ok h" "0 \<le> k" "k \<le> rx_buffer_len h"
  shows "rx_buffer_ok (rx_discard h k)"
    and "rx_buffer_len (rx_discard h k) = rx_buffer_len h - k"
  using assms
  by (auto simp: rx_buffer_ok_def rx_discard_def memmove_front_def)

lemma rx_buffer_ok_slow_data [simp]:
  "rx_buffer_ok (h\<lparr>handle_slow_data := sd\<rparr>) = rx_buffer_ok h"
  by (simp add: rx_buffer_ok_def)

lemma read_frame_stages:
  assumes "h1 = rx_append h (take 128 bytes)"
    and "fs = find_frame_start (rx_buffer h1) (rx_buffer_len h1) 0"
    and "h2 = (if fs > 0 then rx_discard h1 fs else h1)"
  shows "fs = - 1 \<Longrightarrow> rx_buffer_len h1 < 2 \<Longrightarrow>
           gas_sensor_read_frame (Some h) (Read_Bytes bytes) slow_data waveform status =
             (GAS_SENSOR_ERR_SERIAL_READ, Some h1, slow_data, waveform, status)"
    and "fs = - 1 \<Longrightarrow> \<not> rx_buffer_len h1 < 2 \<Longrightarrow>
           gas_sensor_read_frame (Some h) (Read_Bytes bytes) slow_data waveform status =
             (GAS_SENSOR_ERR_INVALID_FRAME, Some (rx_discard h1 1), slow_data, waveform, status)"
    and "fs \<noteq> - 1 \<Longrightarrow> rx_buffer_len h2 < GAS_SENSOR_FRAME_SIZE \<Longrightarrow>
           gas_sensor_read_frame (Some h) (Read_Bytes bytes) slow_data waveform status =
             (GAS_SENSOR_ERR_SERIAL_READ, Some h2, slow_data, waveform, status)"
    and "fs \<noteq> - 1 \<Longrightarrow> \<not> rx_buffer_len h2 < GAS_SENSOR_FRAME_SIZE \<Longrightarrow>
           gas_sensor_parse_frame_ser (Some (rx_buffer h2)) (Some (handle_slow_data h2))
             waveform status = (result, agg, w', s') \<Longrightarrow>
           h3 = (case agg of None \<Rightarrow> h2 | Some sd \<Rightarrow> h2\<lparr>handle_slow_data := sd\<rparr>) \<Longrightarrow>
           h4 = (if result = GAS_SENSOR_OK \<or> result = GAS_SENSOR_ERR_CHECKSUM
                 then rx_discard h3 GAS_SENSOR_FRAME_SIZE else h3) \<Longrightarrow>
           fst (snd (gas_sensor_read_frame (Some h) (Read_Bytes bytes) slow_data waveform status)) =
             Some h4 \<and>
           (result \<noteq> GAS_SENSOR_OK \<longrightarrow>
            gas_sensor_read_frame (Some h) (Read_Bytes bytes) slow_data waveform status =
              (result, Some h4, slow_data, w', s'))"
  unfolding assms
  by (simp_all add: gas_sensor_read_frame_def Let_def split: option.splits)

text \<open>
  C10. Every call of \<^verbatim>\<open>gas_sensor_read_frame\<close> on a handle whose array has its 256 bytes
  and whose fill length lies between 0 and 256 returns a handle of which the same
  holds, whatever the serial port delivers; and the fill length grows by at most 128 in
  one call, since at most 128 bytes are read, the length is reset to 0 before an append
  that would not fit (lemma \<open>rx_append_ok\<close>), and each removal subtracts from it (lemma
  \<open>rx_discard_ok\<close>).
\<close>

theorem read_frame_keeps_rx_buffer_len_bounds:
  assumes "length (rx_buffer h) = 256" "0 \<le> rx_buffer_len h" "rx_buffer_len h \<le> 256"
  shows "\<exists>h'. fst (snd (gas_sensor_read_frame (Some h) port slow_data waveform status)) = Some h' \<and>
           length (rx_buffer h') = 256 \<and> 0 \<le> rx_buffer_len h' \<and> rx_buffer_len h' \<le> 256 \<and>
           rx_buffer_len h' \<le> rx_buffer_len h + 128"
proof -
  let ?r = "gas_sensor_read_frame (Some h) port slow_data waveform status"
  from assms have ok: "rx_buffer_ok h" by (simp add: rx_buffer_ok_def)
  have "\<exists>h'. fst (snd ?r) = Some h' \<and> rx_buffer_ok h' \<and> rx_buffer_len h' \<le> rx_buffer_len h + 128"
  proof (cases port)
    case Read_Failed
    with ok show ?thesis by (simp add: gas_sensor_read_frame_def)
  next
    case (Read_Bytes bytes)
    define h1 where "h1 = rx_append h (take 128 bytes)"
    define fs where "fs = find_frame_start (rx_buffer h1) (rx_buffer_len h1) 0"
    have ok1: "rx_buffer_ok h1" and len1: "rx_buffer_len h1 \<le> rx_buffer_len h + 128"
      unfolding h1_def by (rule rx_append_ok [OF ok], simp)+
    have fsr: "fs = - 1 \<or> (0 \<le> fs \<and> fs < rx_buffer_len h1 - 1)"
      unfolding fs_def using find_frame_start_range [of 0 "rx_buffer h1" "rx_buffer_len h1"] by simp
    show ?thesis
    proof (cases "fs = - 1")
      case True
      show ?thesis
      proof (cases "rx_buffer_len h1 < 2")
        case short: True
        with True Read_Bytes have "fst (snd ?r) = Some h1"
          by (simp add: read_frame_stages(1) [OF h1_def fs_def refl])
        with ok1 len1 show ?thesis by simp
      next
        case long: False
        with True Read_Bytes have "fst (snd ?r) = Some (rx_discard h1 1)"
          by (simp add: read_frame_stages(2) [OF h1_def fs_def refl])
        moreover from long have "rx_buffer_ok (rx_discard h1 1)"
          and "rx_buffer_len (rx_discard h1 1) = rx_buffer_len h1 - 1"
          by (simp_all add: rx_discard_ok [OF ok1])
        ultimately show ?thesis using len1 by simp
      qed
    next
      case False
      with fsr have fs0: "0 \<le> fs" and fslt: "fs < rx_buffer_len h1 - 1" by simp_all
      define h2 where "h2 = (if fs > 0 then rx_discard h1 fs else h1)"
      have ok2: "rx_buffer_ok h2" and len2: "rx_buffer_len h2 \<le> rx_buffer_len h1"
        using fs0 fslt ok1 by (simp_all add: h2_def rx_discard_ok [OF ok1])
      show ?thesis
      proof (cases "rx_buffer_len h2 < GAS_SENSOR_FRAME_SIZE")
        case short: True
        with False Read_Bytes have "fst (snd ?r) = Some h2"
          by (simp add: read_frame_stages(3) [OF h1_def fs_def h2_def])
        with ok2 len2 len1 show ?thesis by simp
      next
        case long: False
        obtain result agg w' s' where pf:
          "gas_sensor_parse_frame_ser (Some (rx_buffer h2)) (Some (handle_slow_data h2))
             waveform status = (result, agg, w', s')"
          by (cases "gas_sensor_parse_frame_ser (Some (rx_buffer h2)) (Some (handle_slow_data h2))
             waveform status") auto
        define h3 where "h3 = (case agg of None \<Rightarrow> h2 | Some sd \<Rightarrow> h2\<lparr>handle_slow_data := sd\<rparr>)"
        define h4 where "h4 = (if result = GAS_SENSOR_OK \<or> result = GAS_SENSOR_ERR_CHECKSUM
                                then rx_discard h3 GAS_SENSOR_FRAME_SIZE else h3)"
        have ok3: "rx_buffer_ok h3" and len3: "rx_buffer_len h3 = rx_buffer_len h2"
          using ok2 by (simp_all add: h3_def split: option.splits)
        from long len3 have "GAS_SENSOR_FRAME_SIZE \<le> rx_buffer_len h3" by simp
        then have ok4: "rx_buffer_ok h4" and len4: "rx_buffer_len h4 \<le> rx_buffer_len h3"
          using ok3 by (simp_all add: h4_def rx_discard_ok [OF ok3] GAS_SENSOR_FRAME_SIZE_def)
        from read_frame_stages(4) [OF h1_def fs_def h2_def False long pf h3_def h4_def]
        have "fst (snd ?r) = Some h4"
          using Read_Bytes by simp
        with ok4 len4 len3 len2 len1 show ?thesis by simp
      qed
    qed
  qed
  then show ?thesis by (auto simp: rx_buffer_ok_def)
qed

theorem read_frame_keeps_rx_buffer_len_bounds_witness:
  "\<exists>h'. fst (snd (gas_sensor_read_frame (Some fresh_handle) (Read_Bytes example_frame)
            None None None)) = Some h' \<and>
      length (rx_buffer h') = 256 \<and> 0 \<le> rx_buffer_len h' \<and> rx_buffer_len h' \<le> 256"
  using read_frame_keeps_rx_buffer_len_bounds
      [of fresh_handle "Read_Bytes example_frame" None None None]
  by (auto simp: fresh_handle_def)

section \<open>Removal of the candidate frame\<close>

text \<open>
  When the decode of the aligned candidate returns \<^verbatim>\<open>GAS_SENSOR_OK\<close> or
  \<^verbatim>\<open>GAS_SENSOR_ERR_CHECKSUM\<close>, its 21 bytes are removed from the front.
\<close>

lemma read_frame_consumes_frame:
  fixes h :: gas_sensor_handle and bytes :: "u8 list"
  defines "h1 \<equiv> rx_append h (take 128 bytes)"
  assumes "21 \<le> rx_buffer_len h1"
    and "rx_buffer h1 ! 0 = 0xAA" "rx_buffer h1 ! 1 = 0x55"
    and "gas_sensor_parse_frame_ser (Some (rx_buffer h1)) (Some (handle_slow_data h1))
           waveform status = (result, Some sd, w', s')"
    and "result = GAS_SENSOR_OK \<or> result = GAS_SENSOR_ERR_CHECKSUM"
  shows "fst (snd (gas_sensor_read_frame (Some h) (Read_Bytes bytes) slow_data waveform status)) =
           Some (rx_discard (h1\<lparr>handle_slow_data := sd\<rparr>) 21)"
proof -
  define fs where "fs = find_frame_start (rx_buffer h1) (rx_buffer_len h1) 0"
  have fs0: "fs = 0"
    unfolding fs_def using assms(2-4)
    by (intro find_frame_start_aligned) (simp_all add: gas_sensor_consts)
  define h2 where "h2 = (if fs > 0 then rx_discard h1 fs else h1)"
  have h2: "h2 = h1" by (simp add: h2_def fs0)
  have ne: "fs \<noteq> - 1" by (simp add: fs0)
  have long: "\<not> rx_buffer_len h2 < GAS_SENSOR_FRAME_SIZE"
    using assms(2) by (simp add: h2 GAS_SENSOR_FRAME_SIZE_def)
  have pf: "gas_sensor_parse_frame_ser (Some (rx_buffer h2)) (Some (handle_slow_data h2))
      waveform status = (result, Some sd, w', s')"
    unfolding h2 by (rule assms(5))
  define h3 where "h3 = (case Some sd of None \<Rightarrow> h2 | Some sd \<Rightarrow> h2\<lparr>handle_slow_data := sd\<rparr>)"
  define h4 where "h4 = (if result = GAS_SENSOR_OK \<or> result = GAS_SENSOR_ERR_CHECKSUM
      then rx_discard h3 GAS_SENSOR_FRAME_SIZE else h3)"
  have h4: "h4 = rx_discard (h1\<lparr>handle_slow_data := sd\<rparr>) 21"
    using assms(6) by (simp add: h4_def h3_def h2 GAS_SENSOR_FRAME_SIZE_def)
  from read_frame_stages(4) [OF _ fs_def h2_def ne long pf h3_def h4_def, of h bytes slow_data]
  show ?thesis
    by (simp add: h1_def h4)
qed

text \<open>
  C1. The claim fails when the decode returns \<^verbatim>\<open>GAS_SENSOR_ERR_INVALID_FRAME\<close>: whenever,
  after the append, the buffer starts with the sync bytes, holds at least 21 bytes, and
  its first 21 bytes have a valid checksum and a frame id of 10 or more,
  \<^verbatim>\<open>gas_sensor_read_frame\<close> returns \<^verbatim>\<open>GAS_SENSOR_ERR_INVALID_FRAME\<close> and removes nothing:
  the handle keeps the buffer and the fill length it had after the append, so the same
  candidate is decoded again by the next call.
\<close>

theorem read_frame_keeps_invalid_id_frame:
  fixes h :: gas_sensor_handle and bytes :: "u8 list"
  defines "h1 \<equiv> rx_append h (take 128 bytes)"
  assumes "21 \<le> rx_buffer_len h1"
    and "rx_buffer h1 ! 0 = 0xAA" "rx_buffer h1 ! 1 = 0x55"
    and "calculate_checksum (rx_buffer h1) = rx_buffer h1 ! 20"
    and "rx_buffer h1 ! 2 \<ge> 10"
  shows "gas_sensor_read_frame (Some h) (Read_Bytes bytes) slow_data waveform status =
           (GAS_SENSOR_ERR_INVALID_FRAME,
            Some (h1\<lparr>handle_slow_data := (handle_slow_data h1)\<lparr>last_frame_id := rx_buffer h1 ! 2\<rparr>\<rparr>),
            slow_data, parse_waveform_block_ser (rx_buffer h1) waveform,
            parse_status_block (rx_buffer h1 ! 3) status)"
proof -
  define fs where "fs = find_frame_start (rx_buffer h1) (rx_buffer_len h1) 0"
  have fs0: "fs = 0"
    unfolding fs_def using assms(2-4)
    by (intro find_frame_start_aligned) (simp_all add: gas_sensor_consts)
  define h2 where "h2 = (if fs > 0 then rx_discard h1 fs else h1)"
  have h2: "h2 = h1" by (simp add: h2_def fs0)
  let ?sd = "(handle_slow_data h1)\<lparr>last_frame_id := rx_buffer h1 ! 2\<rparr>"
  have sw: "slow_data_switch_ser (rx_buffer h1 ! 2) (drop 14 (rx_buffer h1)) ?sd = None"
    using assms(6) by (simp add: switch_ser_None)
  have pf: "gas_sensor_parse_frame_ser (Some (rx_buffer h2)) (Some (handle_slow_data h2))
      waveform status =
      (GAS_SENSOR_ERR_INVALID_FRAME, Some ?sd, parse_waveform_block_ser (rx_buffer h1) waveform,
       parse_status_block (rx_buffer h1 ! 3) status)"
    unfolding h2 using assms(3-5) sw by (simp add: parse_frame_ser_valid)
  have ne: "fs \<noteq> - 1" by (simp add: fs0)
  have long: "\<not> rx_buffer_len h2 < GAS_SENSOR_FRAME_SIZE"
    using assms(2) by (simp add: h2 GAS_SENSOR_FRAME_SIZE_def)
  define h3 where "h3 = (case Some ?sd of None \<Rightarrow> h2 | Some sd \<Rightarrow> h2\<lparr>handle_slow_data := sd\<rparr>)"
  define h4 where "h4 = (if GAS_SENSOR_ERR_INVALID_FRAME = GAS_SENSOR_OK \<or>
      GAS_SENSOR_ERR_INVALID_FRAME = GAS_SENSOR_ERR_CHECKSUM
      then rx_discard h3 GAS_SENSOR_FRAME_SIZE else h3)"
  have h4: "h4 = h1\<lparr>handle_slow_data := ?sd\<rparr>"
    by (simp add: h4_def h3_def h2 gas_sensor_codes)
  from read_frame_stages(4) [OF _ fs_def h2_def ne long pf h3_def h4_def, of h bytes slow_data]
  show ?thesis
    by (simp add: h1_def h4 gas_sensor_codes)
qed

lemma rx_append_fresh:
  "rx_append fresh_handle (take 128 bad_id_frame) =
     fresh_handle\<lparr> rx_buffer := bad_id_frame @ replicate 235 0, rx_buffer_len := 21 \<rparr>"
  by (simp add: rx_append_def fresh_handle_def memcpy_at_def bad_id_frame_def)

lemma rx_append_stalled:
  "rx_append stalled_handle (take 128 example_frame) =
     stalled_handle\<lparr> rx_buffer := bad_id_frame @ example_frame @ replicate 214 0,
                      rx_buffer_len := 42 \<rparr>"
  by (simp add: rx_append_def stalled_handle_def memcpy_at_def bad_id_frame_def
      example_frame_def)

lemma bad_id_frame_at_front:
  "(bad_id_frame @ rest) ! 0 = 0xAA" "(bad_id_frame @ rest) ! 1 = 0x55"
  "(bad_id_frame @ rest) ! Suc 0 = 0x55"
  "(bad_id_frame @ rest) ! 2 = 0x0A" "(bad_id_frame @ rest) ! 3 = 0"
  "(bad_id_frame @ rest) ! 20 = 0xF6"
  "calculate_checksum (bad_id_frame @ rest) = 0xF6"
  "take 21 (bad_id_frame @ rest) = bad_id_frame"
  by (simp_all add: bad_id_frame_def calculate_checksum_def upt_2_20)

theorem read_frame_keeps_invalid_id_frame_witness:
  "gas_sensor_read_frame (Some fresh_handle) (Read_Bytes bad_id_frame) None None None =
     (GAS_SENSOR_ERR_INVALID_FRAME, Some stalled_handle, None, None, None) \<and>
   gas_sensor_read_frame (Some stalled_handle) (Read_Bytes example_frame) None None None =
     (GAS_SENSOR_ERR_INVALID_FRAME, Some stalled_handle_2, None, None, None) \<and>
   rx_buffer_len stalled_handle = 21 \<and> take 21 (rx_buffer stalled_handle) = bad_id_frame \<and>
   rx_buffer_len stalled_handle_2 = 42 \<and> take 21 (rx_buffer stalled_handle_2) = bad_id_frame"
proof -
  have "gas_sensor_read_frame (Some fresh_handle) (Read_Bytes bad_id_frame) None None None =
     (GAS_SENSOR_ERR_INVALID_FRAME, Some stalled_handle, None, None, None)"
    using read_frame_keeps_invalid_id_frame [of fresh_handle bad_id_frame None None None]
    by (simp add: rx_append_fresh bad_id_frame_at_front parse_waveform_block_ser_def
        parse_status_block_def)
      (simp add: fresh_handle_def stalled_handle_def)
  moreover have "gas_sensor_read_frame (Some stalled_handle) (Read_Bytes example_frame)
      None None None =
     (GAS_SENSOR_ERR_INVALID_FRAME, Some stalled_handle_2, None, None, None)"
    using read_frame_keeps_invalid_id_frame [of stalled_handle example_frame None None None]
    by (simp add: rx_append_stalled bad_id_frame_at_front parse_waveform_block_ser_def
        parse_status_block_def)
      (simp add: stalled_handle_def stalled_handle_2_def)
  ultimately show ?thesis
    by (simp add: stalled_handle_def stalled_handle_2_def bad_id_frame_facts)
qed

end
